theory Spec2Isabelle
  imports Main "HOL-Library.AList"
begin

section \<open>Strings and paths\<close>

text \<open>
  Strings are byte strings (UTF-8), as they lie in the source files and on disk. The
  string functions of JavaScript used by the supervisor are written out on them; they
  agree with JavaScript on ASCII text, which is all the statements below need, apart from
  the colour-code pattern of \<open>executeCommand\<close>, whose non-ASCII prefix is given by its
  bytes, and the identifier of a new instance (\<open>serverId_of\<close>), which is worked out for
  every name.
\<close>

type_synonym path = string

definition toLowerCase :: "string \<Rightarrow> string" where
  "toLowerCase str =
     map (\<lambda>c. case map_of (zip ''ABCDEFGHIJKLMNOPQRSTUVWXYZ'' ''abcdefghijklmnopqrstuvwxyz'') c of
                 Some l \<Rightarrow> l | None \<Rightarrow> c) str"

definition toUpperCase :: "string \<Rightarrow> string" where
  "toUpperCase str =
     map (\<lambda>c. case map_of (zip ''abcdefghijklmnopqrstuvwxyz'' ''ABCDEFGHIJKLMNOPQRSTUVWXYZ'') c of
                 Some u \<Rightarrow> u | None \<Rightarrow> c) str"

definition startsWith :: "string \<Rightarrow> string \<Rightarrow> bool" where
  "startsWith str pre = (take (length pre) str = pre)"

fun includes_str :: "string \<Rightarrow> string \<Rightarrow> bool" where
  "includes_str [] sub = (sub = [])"
| "includes_str (c # cs) sub = (startsWith (c # cs) sub \<or> includes_str cs sub)"

definition is_space :: "char \<Rightarrow> bool" where
  "is_space c = (c \<in> set [CHR '' '', CHR 0x09, CHR 0x0A, CHR 0x0B, CHR 0x0C, CHR 0x0D])"

definition trim :: "string \<Rightarrow> string" where
  "trim str = rev (dropWhile is_space (rev (dropWhile is_space str)))"

text \<open>\<open>str.split(c)\<close> for a one-character separator.\<close>

fun split_on :: "char \<Rightarrow> string \<Rightarrow> string list" where
  "split_on c [] = [[]]"
| "split_on c (x # xs) =
     (if x = c then [] # split_on c xs
      else (case split_on c xs of w # ws \<Rightarrow> (x # w) # ws | [] \<Rightarrow> [[x]]))"

fun join_with :: "string \<Rightarrow> string list \<Rightarrow> string" where
  "join_with sep [] = []"
| "join_with sep [w] = w"
| "join_with sep (w # ws) = w @ sep @ join_with sep ws"

text \<open>
  \<open>path.join\<close>, \<open>path.normalize\<close> and \<open>path.dirname\<close> of Node on POSIX: empty and
  \<open>.\<close> segments vanish, \<open>..\<close> removes the segment before it.
\<close>

fun norm_segs :: "bool \<Rightarrow> string list \<Rightarrow> string list \<Rightarrow> string list" where
  "norm_segs allowAboveRoot acc [] = rev acc"
| "norm_segs allowAboveRoot acc (c # cs) =
     (if c = [] \<or> c = ''.'' then norm_segs allowAboveRoot acc cs
      else if c = ''..'' then
        (case acc of
           a # as \<Rightarrow> if a \<noteq> ''..'' then norm_segs allowAboveRoot as cs
                     else norm_segs allowAboveRoot (if allowAboveRoot then c # acc else acc) cs
         | [] \<Rightarrow> norm_segs allowAboveRoot (if allowAboveRoot then [c] else []) cs)
      else norm_segs allowAboveRoot (c # acc) cs)"

definition path_normalize :: "path \<Rightarrow> path" where
  "path_normalize p =
     (if p = [] then ''.''
      else let isAbsolute = (hd p = CHR ''/'');
               trailingSeparator = (last p = CHR ''/'');
               body = join_with ''/'' (norm_segs (\<not> isAbsolute) [] (split_on CHR ''/'' p))
           in if body = [] then (if isAbsolute then ''/'' else if trailingSeparator then ''./'' else ''.'')
              else (if isAbsolute then ''/'' else []) @ body @ (if trailingSeparator then ''/'' else []))"

definition path_join :: "path \<Rightarrow> path \<Rightarrow> path" where
  "path_join a b =
     (if a = [] then (if b = [] then ''.'' else path_normalize b)
      else if b = [] then path_normalize a
      else path_normalize (a @ ''/'' @ b))"

definition dirname :: "path \<Rightarrow> path" where
  "dirname p =
     (if p = [] then ''.''
      else let r = dropWhile (\<lambda>c. c \<noteq> CHR ''/'') (dropWhile (\<lambda>c. c = CHR ''/'') (rev (tl p)))
           in if r = [] then (if hd p = CHR ''/'' then ''/'' else ''.'')
              else if hd p = CHR ''/'' \<and> length r = 1 then ''//''
              else hd p # rev (tl r))"

text \<open>The last segment of a path that does not end in a separator (\<open>path.basename\<close>).\<close>

definition basename :: "path \<Rightarrow> string" where
  "basename p = rev (takeWhile (\<lambda>c. c \<noteq> CHR ''/'') (rev p))"

text \<open>A plain file name: not empty, no separator, neither \<open>.\<close> nor \<open>..\<close>.\<close>

definition plain_name :: "string \<Rightarrow> bool" where
  "plain_name f = (f \<noteq> [] \<and> CHR ''/'' \<notin> set f \<and> f \<noteq> ''.'' \<and> f \<noteq> ''..'')"

text \<open>Decimal rendering of numbers in template strings.\<close>

fun string_of_nat :: "nat \<Rightarrow> string" where
  "string_of_nat n =
     (if n < 10 then [''0123456789'' ! n]
      else string_of_nat (n div 10) @ [''0123456789'' ! (n mod 10)])"

declare string_of_nat.simps [simp del]

definition string_of_int :: "int \<Rightarrow> string" where
  "string_of_int i = (if i < 0 then ''-'' @ string_of_nat (nat (- i)) else string_of_nat (nat i))"

section \<open>Data model\<close>

datatype lifecycle = OFFLINE | STARTING | ONLINE | STOPPING | RESTARTING | CRASHED

record java_args =
  xmx :: string
  xms :: string
  args :: string

text \<open>\<open>ServerConfig\<close> of types.ts, the instance descriptor.\<close>

record server_config =
  cfg_id :: string
  cfg_name :: string
  jarFile :: string
  javaArgs :: java_args
  rconPort :: nat
  rconPassword :: "string option"
  autoRestart :: bool
  created :: nat

datatype log_type = info | warn | error | chat

record log_entry =
  timestamp :: string
  message :: string
  ltype :: log_type

record linked_user =
  lu_id :: string
  lu_username :: string
  lu_externalIds :: "(string \<times> string) list"

datatype player_source = cache | rcon_source | ops_source | whitelist_source

record player =
  uuid :: string
  pname :: string
  lastLogin :: nat
  isOnline :: bool
  isOp :: bool
  isBanned :: bool
  isWhitelisted :: bool
  psource :: player_source
  avatarUrl :: string
  meta :: "string option"
  linkedUser :: "linked_user option"

text \<open>
  \<open>PublicServerInfo\<close>, the status snapshot. The two fields read from server.properties
  (\<open>motd\<close>, \<open>players.max\<close>) are left out: no statement below reads the snapshot's content.
\<close>

record public_info =
  pi_name :: string
  pi_status :: lifecycle
  pi_version :: string
  pi_coreType :: string
  pi_players :: "string list"
  pi_lastUpdated :: nat

record panel_config =
  panelPort :: nat
  activeServer :: "string option"
  theme :: string

subsection \<open>The file system\<close>

text \<open>
  A file holds text, or the JSON text of a value (\<open>JSON.stringify\<close> is taken to be
  injective and \<open>JSON.parse\<close> its inverse; \<open>Text\<close> stands for text that is not JSON).
  An entry carries its creation time (\<open>birthtimeMs\<close>). Paths are kept in a list so that
  directories can be enumerated.
\<close>

datatype fdata =
    Text string
  | JsonConfig server_config
  | JsonEntries "(string \<times> string) list"
  | JsonMeta "(string \<times> string) list"
  | JsonPublic public_info
  | JsonPanel panel_config

datatype kind = Dir | File fdata

type_synonym fs = "(path \<times> nat \<times> kind) list"

definition existsSync :: "fs \<Rightarrow> path \<Rightarrow> bool" where
  "existsSync disk p = (map_of disk p \<noteq> None)"

definition isDirectory :: "fs \<Rightarrow> path \<Rightarrow> bool" where
  "isDirectory disk p = (case map_of disk p of Some (t, Dir) \<Rightarrow> True | _ \<Rightarrow> False)"

definition readFileSync :: "fs \<Rightarrow> path \<Rightarrow> fdata option" where
  "readFileSync disk p = (case map_of disk p of Some (t, File d) \<Rightarrow> Some d | _ \<Rightarrow> None)"

definition birthtimeMs :: "fs \<Rightarrow> path \<Rightarrow> nat" where
  "birthtimeMs disk p = (case map_of disk p of Some (t, k) \<Rightarrow> t | None \<Rightarrow> 0)"

definition writeFileSync :: "nat \<Rightarrow> fs \<Rightarrow> path \<Rightarrow> fdata \<Rightarrow> fs" where
  "writeFileSync now disk p d =
     (case map_of disk p of
        Some (t, k) \<Rightarrow> AList.update p (t, File d) disk
      | None \<Rightarrow> AList.update p (now, File d) disk)"

definition mkdirSync :: "nat \<Rightarrow> fs \<Rightarrow> path \<Rightarrow> fs" where
  "mkdirSync now disk p = (if existsSync disk p then disk else AList.update p (now, Dir) disk)"

definition under :: "path \<Rightarrow> path \<Rightarrow> bool" where
  "under d p = (p = d \<or> startsWith p (d @ ''/''))"

text \<open>\<open>fs.rmSync(p, {recursive: true, force: true})\<close>: the entry and all below it.\<close>

definition rmSync :: "fs \<Rightarrow> path \<Rightarrow> fs" where
  "rmSync disk p = filter (\<lambda>e. \<not> under p (fst e)) disk"

definition readdirSync :: "fs \<Rightarrow> path \<Rightarrow> string list" where
  "readdirSync disk d =
     map (\<lambda>e. drop (length d + 1) (fst e))
       (filter (\<lambda>e. startsWith (fst e) (d @ ''/'') \<and> length (fst e) > length d + 1
                     \<and> CHR ''/'' \<notin> set (drop (length d + 1) (fst e))) disk)"

definition renameSync :: "fs \<Rightarrow> path \<Rightarrow> path \<Rightarrow> fs" where
  "renameSync disk a b =
     (case map_of disk a of
        Some n \<Rightarrow> AList.update b n (AList.delete a disk)
      | None \<Rightarrow> disk)"

definition copyFileSync :: "nat \<Rightarrow> fs \<Rightarrow> path \<Rightarrow> path \<Rightarrow> fs" where
  "copyFileSync now disk a b =
     (case readFileSync disk a of Some d \<Rightarrow> writeFileSync now disk b d | None \<Rightarrow> disk)"

text \<open>\<open>fs.cpSync(src, dst, {recursive: true, filter})\<close>: the filter sees the source path.\<close>

definition cpSync :: "nat \<Rightarrow> (path \<Rightarrow> bool) \<Rightarrow> fs \<Rightarrow> path \<Rightarrow> path \<Rightarrow> fs" where
  "cpSync now keep disk src dst =
     foldl (\<lambda>acc e. if under src (fst e) \<and> keep (fst e)
                     then AList.update (dst @ drop (length src) (fst e)) (now, snd (snd e)) acc
                     else acc) disk disk"

text \<open>\<open>fs.appendFile\<close>, run when the event loop reaches it; its failure is only printed.\<close>

definition appendFile :: "nat \<Rightarrow> fs \<Rightarrow> path \<Rightarrow> string \<Rightarrow> fs" where
  "appendFile now disk p line =
     (case map_of disk p of
        None \<Rightarrow> AList.update p (now, File (Text line)) disk
      | Some (t, File (Text old)) \<Rightarrow> AList.update p (t, File (Text (old @ line))) disk
      | Some other \<Rightarrow> disk)"

subsection \<open>Errors\<close>

text \<open>
  The code throws \<open>Error\<close> objects told apart by their message; each message is a
  constructor. \<open>IoError\<close> is an exception of the \<open>fs\<close> module at the named path,
  \<open>RconError\<close> a rejection of the control-channel client.
\<close>

datatype error =
    ServerBusy
  | ServerIdNotFound
  | ConfigCorrupted
  | ConfigParseFailed
  | CoreFileNotFound path
  | ServerIdExists string
  | DeleteIdNotFound
  | CannotDeleteActive
  | NoServerLoaded
  | BackupNeedsOffline
  | RestoreNeedsOffline
  | BackupNotFound
  | ServerNotActive
  | StdinWriteFailed
  | NoExecutionInterface
  | IoError path
  | RconError string
  | TypeError

fun error_message :: "error \<Rightarrow> string" where
  "error_message ServerBusy = ''Server is already running or busy''"
| "error_message ServerIdNotFound = ''Server ID not found''"
| "error_message ConfigCorrupted = ''Server configuration corrupted''"
| "error_message ConfigParseFailed = ''Failed to parse server config''"
| "error_message (CoreFileNotFound p) = ''Core file not found at: '' @ p"
| "error_message (ServerIdExists i) =
     ''Server ID '' @ [CHR 0x27] @ i @ [CHR 0x27] @ '' already exists. Please choose a different name.''"
| "error_message DeleteIdNotFound = ''Server ID not found.''"
| "error_message CannotDeleteActive =
     ''Cannot delete the active server while it is running. Stop it first.''"
| "error_message NoServerLoaded = ''No server loaded''"
| "error_message BackupNeedsOffline = ''Server must be OFFLINE to create a backup.''"
| "error_message RestoreNeedsOffline = ''Server must be OFFLINE to restore.''"
| "error_message BackupNotFound = ''Backup not found''"
| "error_message ServerNotActive = ''Server not active. Start it first.''"
| "error_message StdinWriteFailed = ''Failed to write to stdin''"
| "error_message NoExecutionInterface = ''No execution interface available.''"
| "error_message (IoError p) = ''I/O error at '' @ p"
| "error_message (RconError m) = m"
| "error_message TypeError = ''TypeError''"

text \<open>
  The errors by which an operation refuses the lifecycle state it is called in
  (\<open>InvalidLifecycleForOperation\<close> in the specification's taxonomy).
\<close>

fun InvalidLifecycleForOperation :: "error \<Rightarrow> bool" where
  "InvalidLifecycleForOperation ServerBusy = True"
| "InvalidLifecycleForOperation CannotDeleteActive = True"
| "InvalidLifecycleForOperation BackupNeedsOffline = True"
| "InvalidLifecycleForOperation RestoreNeedsOffline = True"
| "InvalidLifecycleForOperation ServerNotActive = True"
| "InvalidLifecycleForOperation e = False"

section \<open>The supervisor\<close>

subsection \<open>State and environment\<close>

record child =
  spawn_args :: "string list"
  cwd :: path
  stdin :: "string option"

record rcon_client =
  socket :: bool
  rc_port :: nat
  rc_password :: string

record laplace_user =
  user_id :: string
  username :: string
  externalIds :: "(string \<times> string) list"

text \<open>Callbacks handed to \<open>setTimeout\<close> that have not run yet.\<close>

datatype timer = RespawnTimer | RconTimer nat


text \<open>
  The fields of class \<open>MinecraftServer\<close>, followed by what the class reaches outside
  itself: the disk, the pending timers and the pending \<open>fs.appendFile\<close> calls. Events
  emitted to subscribers leave the supervisor's state alone and are not recorded.
\<close>

record mc =
  process :: "child option"
  rcon :: "rcon_client option"
  config :: "server_config option"
  serverDir :: string
  logs :: "log_entry list"
  status :: lifecycle
  crashCount :: nat
  intentionToStop :: bool
  serversDir :: string
  users :: "laplace_user list"
  onlinePlayers :: "string list"
  startTime :: "nat option"
  statusInterval :: bool
  disk :: fs
  timers :: "timer list"
  appends :: "(path \<times> string) list"

text \<open>
  What a call takes from outside: the clock, the random password, and which file-system
  calls fail. \<open>io_fails p\<close> says that creating or replacing the entry at \<open>p\<close> throws; it is
  consulted where the code handles such an exception (\<open>writeJsonAtomic\<close> and the
  \<open>try\<close> blocks of \<open>createServer\<close> and \<open>createBackup\<close>), elsewhere file-system calls
  succeed. \<open>clean\<close> is the first line of \<open>log\<close>, the removal of ANSI escape sequences
  followed by \<open>trim()\<close>: it is an argument, so every statement holds for whatever
  function the pattern denotes.
\<close>

record env =
  clean :: "string \<Rightarrow> string"
  now_iso :: string
  now_ms :: nat
  rand_hex :: string
  io_fails :: "path \<Rightarrow> bool"
  spawn_throws :: "string option"

definition MAX_LOGS :: nat where
  "MAX_LOGS = 500"

definition initial :: "path \<Rightarrow> laplace_user list \<Rightarrow> fs \<Rightarrow> mc" where
  "initial dir us d =
     \<lparr>process = None, rcon = None, config = None, serverDir = [], logs = [],
      status = OFFLINE, crashCount = 0, intentionToStop = False, serversDir = dir,
      users = us, onlinePlayers = [], startTime = None, statusInterval = False,
      disk = d, timers = [], appends = []\<rparr>"

subsection \<open>Atomic JSON write (utils.ts)\<close>

text \<open>
  \<open>content\<close> is the value whose JSON text is written. A failed \<open>writeFileSync\<close> is
  taken to leave no temporary file; a failed \<open>renameSync\<close> leaves it behind.
\<close>

definition writeJsonAtomic :: "env \<Rightarrow> path \<Rightarrow> fdata \<Rightarrow> fs \<Rightarrow> (error + unit) \<times> fs" where
  "writeJsonAtomic e filePath content d =
     (let tmpPath = filePath @ ''.tmp'' in
      if io_fails e tmpPath then (Inl (IoError tmpPath), d)
      else let d1 = writeFileSync (now_ms e) d tmpPath content in
        if io_fails e filePath then (Inl (IoError filePath), d1)
        else (Inr (), renameSync d1 tmpPath filePath))"

subsection \<open>Logging\<close>

fun type_name :: "log_type \<Rightarrow> string" where
  "type_name info = ''info''"
| "type_name warn = ''warn''"
| "type_name error = ''error''"
| "type_name chat = ''chat''"

definition log :: "env \<Rightarrow> string \<Rightarrow> log_type \<Rightarrow> mc \<Rightarrow> mc" where
  "log e msg ty s =
     (let cleanMsg = clean e msg in
      if cleanMsg = [] then s
      else
        let entry = \<lparr>timestamp = now_iso e, message = cleanMsg, ltype = ty\<rparr>;
            pushed = logs s @ [entry];
            s1 = s\<lparr>logs := (if length pushed > MAX_LOGS then tl pushed else pushed)\<rparr>
        in if serverDir s1 \<noteq> []
           then s1\<lparr>appends := appends s1 @
                  [(path_join (serverDir s1) ''laplace.log'',
                    ''['' @ timestamp entry @ ''] ['' @ toUpperCase (type_name ty) @ ''] ''
                      @ cleanMsg @ [CHR 0x0A])]\<rparr>
           else s1)"

definition logSystem :: "env \<Rightarrow> string \<Rightarrow> mc \<Rightarrow> mc" where
  "logSystem e msg s = log e msg info s"

definition logError :: "env \<Rightarrow> string \<Rightarrow> mc \<Rightarrow> mc" where
  "logError e msg s = log e msg error s"

text \<open>The event loop carrying out the queued \<open>fs.appendFile\<close> calls.\<close>

definition flush_appends :: "env \<Rightarrow> mc \<Rightarrow> mc" where
  "flush_appends e s =
     s\<lparr>disk := foldl (\<lambda>d a. appendFile (now_ms e) d (fst a) (snd a)) (disk s) (appends s),
       appends := []\<rparr>"

subsection \<open>Status snapshot and state changes\<close>

definition detectCoreType :: "string \<Rightarrow> string" where
  "detectCoreType jarName =
     (let lower = toLowerCase jarName in
      if includes_str lower ''paper'' then ''Paper''
      else if includes_str lower ''spigot'' then ''Spigot''
      else if includes_str lower ''forge'' then ''Forge''
      else if includes_str lower ''fabric'' then ''Fabric''
      else ''Vanilla/Custom'')"

definition getPublicInfo :: "env \<Rightarrow> mc \<Rightarrow> public_info" where
  "getPublicInfo e s =
     \<lparr>pi_name = (case config s of
                   Some c \<Rightarrow> if cfg_name c = [] then ''Unconfigured Server'' else cfg_name c
                 | None \<Rightarrow> ''Unconfigured Server''),
      pi_status = status s,
      pi_version = ''Latest'',
      pi_coreType = (case config s of Some c \<Rightarrow> detectCoreType (jarFile c) | None \<Rightarrow> ''Unknown''),
      pi_players = onlinePlayers s,
      pi_lastUpdated = now_ms e\<rparr>"

definition publicPath :: "mc \<Rightarrow> path" where
  "publicPath s = path_join (path_join (serversDir s) ''..'') ''laplace.public.json''"

text \<open>The \<open>try\<close> block swallows a failed write.\<close>

definition updatePublicFile :: "env \<Rightarrow> mc \<Rightarrow> mc" where
  "updatePublicFile e s =
     s\<lparr>disk := snd (writeJsonAtomic e (publicPath s) (JsonPublic (getPublicInfo e s)) (disk s))\<rparr>"

definition startStatusPoller :: "mc \<Rightarrow> mc" where
  "startStatusPoller s = s\<lparr>statusInterval := True\<rparr>"

definition stopStatusPoller :: "mc \<Rightarrow> mc" where
  "stopStatusPoller s = (if statusInterval s then s\<lparr>statusInterval := False\<rparr> else s)"

definition updateState :: "env \<Rightarrow> lifecycle \<Rightarrow> mc \<Rightarrow> mc" where
  "updateState e newState s =
     (let s1 = updatePublicFile e (s\<lparr>status := newState\<rparr>) in
      if newState = ONLINE then startStatusPoller s1
      else if newState = OFFLINE \<or> newState = CRASHED \<or> newState = STOPPING then stopStatusPoller s1
      else s1)"

subsection \<open>Selecting an instance\<close>

text \<open>
  \<open>JSON.parse\<close> throws on text that is not JSON, and \<open>readFileSync\<close> on a directory;
  both end in the \<open>catch\<close>. A descriptor file holding JSON of another shape, which the
  code would store unchecked, is reported like unparsable text: the model has no
  ill-typed descriptor.
\<close>

definition selectServer :: "string \<Rightarrow> mc \<Rightarrow> (error + unit) \<times> mc" where
  "selectServer serverId s =
     (let serverPath = path_join (serversDir s) serverId in
      if \<not> existsSync (disk s) serverPath then (Inl ServerIdNotFound, s)
      else
        let configPath = path_join serverPath ''laplace.server.json'' in
        if \<not> existsSync (disk s) configPath then (Inl ConfigCorrupted, s)
        else (case readFileSync (disk s) configPath of
                Some (JsonConfig c) \<Rightarrow> (Inr (), s\<lparr>config := Some c, serverDir := serverPath\<rparr>)
              | _ \<Rightarrow> (Inl ConfigParseFailed, s)))"

subsection \<open>The subprocess and crash recovery\<close>

definition spawnProcess :: "env \<Rightarrow> mc \<Rightarrow> mc" where
  "spawnProcess e s =
     (case config s of
        None \<Rightarrow> s
      | Some c \<Rightarrow>
          let s1 = updateState e STARTING s;
              s2 = logSystem e (''Booting core: '' @ cfg_name c @ ''...'') s1;
              jarPath = path_join (serverDir s2) (jarFile c)
          in if \<not> existsSync (disk s2) jarPath
             then updateState e CRASHED
                    (logError e (''FATAL: Server jar not found at '' @ jarPath) s2)
             else
               let customArgs = filter (\<lambda>a. trim a \<noteq> []) (split_on CHR '' '' (args (javaArgs c)));
                   argv = [''-Xmx'' @ xmx (javaArgs c), ''-Xms'' @ xms (javaArgs c)] @ customArgs
                            @ [''-jar'', jarPath, ''nogui''];
                   s3 = s2\<lparr>startTime := Some (now_ms e)\<rparr>
               in (case spawn_throws e of
                     Some m \<Rightarrow>
                       (updateState e CRASHED (logError e (''Spawn Exception: '' @ m) s3))
                         \<lparr>startTime := None\<rparr>
                   | None \<Rightarrow>
                       s3\<lparr>process := Some \<lparr>spawn_args = argv, cwd = serverDir s3, stdin = Some []\<rparr>\<rparr>))"

definition cleanup :: "mc \<Rightarrow> mc" where
  "cleanup s = (stopStatusPoller s)\<lparr>rcon := None, process := None, startTime := None\<rparr>"

definition handleCrash :: "env \<Rightarrow> mc \<Rightarrow> mc" where
  "handleCrash e s =
     (let s1 = s\<lparr>crashCount := crashCount s + 1\<rparr> in
      if crashCount s1 \<le> 3 \<and> (case config s1 of Some c \<Rightarrow> autoRestart c | None \<Rightarrow> True)
      then (logError e (''Server crashed! Auto-restarting ('' @ string_of_nat (crashCount s1)
                          @ ''/3) in 5s...'') s1)
             \<lparr>timers := timers s1 @ [RespawnTimer]\<rparr>
      else logError e ''Max crash attempts reached. Manual intervention required.'' s1)"

text \<open>The callback of the timer set by \<open>handleCrash\<close>.\<close>

definition respawn_due :: "env \<Rightarrow> mc \<Rightarrow> mc" where
  "respawn_due e s = (if \<not> intentionToStop s then spawnProcess e s else s)"

text \<open>\<open>connectRcon\<close> up to its \<open>setTimeout\<close>, and the callback of that timer.\<close>

definition connectRcon :: "nat \<Rightarrow> mc \<Rightarrow> mc" where
  "connectRcon attempts s =
     (if rcon s \<noteq> None \<or> config s = None then s
      else if attempts > 5 then s
      else s\<lparr>timers := timers s @ [RconTimer attempts]\<rparr>)"

datatype connect_result = Connected | Refused string

definition rcon_due :: "env \<Rightarrow> nat \<Rightarrow> connect_result \<Rightarrow> mc \<Rightarrow> mc" where
  "rcon_due e attempts res s =
     (case config s of
        None \<Rightarrow> s
      | Some c \<Rightarrow>
          (case res of
             Connected \<Rightarrow>
               logSystem e ''RCON channel established.''
                 (s\<lparr>rcon := Some \<lparr>socket = True,
                                  rc_port = (if rconPort c = 0 then 25575 else rconPort c),
                                  rc_password = (case rconPassword c of
                                                   None \<Rightarrow> ''minecraft''
                                                 | Some p \<Rightarrow> if p = [] then ''minecraft'' else p)\<rparr>\<rparr>)
           | Refused m \<Rightarrow>
               connectRcon (attempts + 1)
                 (if attempts > 2
                  then logError e (''RCON connection retry ('' @ string_of_nat attempts @ ''/5)...'') s
                  else s)))"

text \<open>The handlers attached to the child process in \<open>spawnProcess\<close>.\<close>

definition on_error :: "env \<Rightarrow> mc \<Rightarrow> mc" where
  "on_error e s =
     (updateState e CRASHED
        (logError e ''FATAL: Failed to spawn Java process. Is Java installed?'' s))
       \<lparr>startTime := None\<rparr>"

definition on_stdout :: "env \<Rightarrow> string \<Rightarrow> mc \<Rightarrow> mc" where
  "on_stdout e str s =
     (let s1 = log e str info s in
      if (includes_str str ''Done'' \<and> includes_str str ''!'') \<or> includes_str str ''Listening on port''
      then (if status s1 \<noteq> ONLINE then connectRcon 0 (updateState e ONLINE s1) else s1)
      else s1)"

definition on_stderr :: "env \<Rightarrow> string \<Rightarrow> mc \<Rightarrow> mc" where
  "on_stderr e str s = logError e str s"

fun code_text :: "int option \<Rightarrow> string" where
  "code_text None = ''null''"
| "code_text (Some c) = string_of_int c"

definition on_close :: "env \<Rightarrow> int option \<Rightarrow> mc \<Rightarrow> mc" where
  "on_close e code s =
     (let s1 = cleanup (logSystem e (''Process exited with code '' @ code_text code) s) in
      if \<not> intentionToStop s1 \<and> status s1 \<noteq> RESTARTING
         \<and> code \<noteq> Some 0 \<and> code \<noteq> Some 130 \<and> code \<noteq> Some 143
      then handleCrash e (updateState e CRASHED s1)
      else if status s1 \<noteq> RESTARTING then updateState e OFFLINE s1
      else s1)"

subsection \<open>Manual start\<close>

definition loadAndStart :: "env \<Rightarrow> string \<Rightarrow> string \<Rightarrow> mc \<Rightarrow> (error + unit) \<times> mc" where
  "loadAndStart e serverId actor s =
     (if status s \<noteq> OFFLINE \<and> status s \<noteq> CRASHED then (Inl ServerBusy, s)
      else (case selectServer serverId s of
              (Inl err, s1) \<Rightarrow> (Inl err, s1)
            | (Inr u, s1) \<Rightarrow>
                let s2 = s1\<lparr>crashCount := 0, intentionToStop := False\<rparr>;
                    s3 = updateState e STARTING s2;
                    s4 = logSystem e (''[System] Start command received from user: '' @ actor) s3
                in (Inr (), spawnProcess e s4)))"

subsection \<open>Runs of the event loop\<close>

text \<open>
  A run of unintended exits: in each round the child writes some output, then exits
  with a code; when a respawn timer is pending after that, one fires and the next
  round follows. Every round has its own environment. The list returned has one entry
  for each timer that fired, that is, for each automatic respawn: the child process its
  callback left running, if any.
\<close>

fun crash_run :: "(env \<times> string list \<times> int option) list \<Rightarrow> mc \<Rightarrow> child option list \<times> mc" where
  "crash_run [] s = ([], s)"
| "crash_run ((e, outs, code) # rest) s =
     (let s1 = on_close e code (foldl (\<lambda>st str. on_stdout e str st) s outs) in
      if RespawnTimer \<in> set (timers s1)
      then (let s2 = respawn_due e (s1\<lparr>timers := remove1 RespawnTimer (timers s1)\<rparr>) in
            case crash_run rest s2 of (spawned, s3) \<Rightarrow> (process s2 # spawned, s3))
      else ([], s1))"

text \<open>
  The exit codes that the \<open>close\<close> handler does not take for a deliberate stop, and the
  states in which an exit with such a code is handled as a crash that may be followed by
  a respawn: no stop intended, no restart under way, auto-restart not switched off
  (\<open>this.config?.autoRestart !== false\<close>).
\<close>

definition unintended :: "int option \<Rightarrow> bool" where
  "unintended code = (code \<noteq> Some 0 \<and> code \<noteq> Some 130 \<and> code \<noteq> Some 143)"

definition armed :: "mc \<Rightarrow> bool" where
  "armed s =
     (\<not> intentionToStop s \<and> status s \<noteq> RESTARTING
      \<and> (case config s of Some c \<Rightarrow> autoRestart c | None \<Rightarrow> True))"

text \<open>
  The states in which \<open>spawnProcess\<close> finds its jar: a descriptor is selected and the
  jar it names is there. The jar is not the status snapshot or its temporary file, which
  every state change writes.
\<close>

definition launchable :: "mc \<Rightarrow> bool" where
  "launchable s =
     (case config s of
        None \<Rightarrow> False
      | Some c \<Rightarrow>
          existsSync (disk s) (path_join (serverDir s) (jarFile c))
          \<and> basename (path_join (serverDir s) (jarFile c)) \<noteq> ''laplace.public.json''
          \<and> basename (path_join (serverDir s) (jarFile c)) \<noteq> ''laplace.public.json.tmp'')"







subsection \<open>Backups\<close>

definition backupsRoot :: "mc \<Rightarrow> path" where
  "backupsRoot s = path_join (dirname (serversDir s)) ''backups''"

definition getBackupDir :: "env \<Rightarrow> mc \<Rightarrow> path \<times> mc" where
  "getBackupDir e s =
     (let backupDir = path_join (backupsRoot s)
                        (case config s of
                           Some c \<Rightarrow> if cfg_id c = [] then ''unknown'' else cfg_id c
                         | None \<Rightarrow> ''unknown'')
      in (backupDir,
          if \<not> existsSync (disk s) backupDir
          then s\<lparr>disk := mkdirSync (now_ms e) (disk s) backupDir\<rparr> else s))"

definition backup_label_char :: "char \<Rightarrow> bool" where
  "backup_label_char c =
     (c \<in> set ''abcdefghijklmnopqrstuvwxyzABCDEFGHIJKLMNOPQRSTUVWXYZ0123456789-_'')"

definition createBackup :: "env \<Rightarrow> string \<Rightarrow> string option \<Rightarrow> mc \<Rightarrow> (error + unit) \<times> mc" where
  "createBackup e actor label s =
     (if serverDir s = [] \<or> config s = None then (Inl NoServerLoaded, s)
      else if status s \<noteq> OFFLINE then (Inl BackupNeedsOffline, s)
      else
        let s1 = logSystem e (''[Backup] Process started by user: '' @ actor) s;
            stamp = map (\<lambda>c. if c = CHR '':'' \<or> c = CHR ''.'' then CHR ''-'' else c) (now_iso e);
            backupName = (case label of
                            Some n \<Rightarrow> if n = [] then ''backup-'' @ stamp
                                      else filter backup_label_char n @ ''-'' @ stamp
                          | None \<Rightarrow> ''backup-'' @ stamp);
            (backupDir, s2) = getBackupDir e s1;
            targetDir = path_join backupDir backupName
        in if io_fails e targetDir
           then (Inl (IoError targetDir),
                 logError e (''[Backup] Failed: '' @ error_message (IoError targetDir)) s2)
           else (Inr (),
                 logSystem e (''[Backup] Created snapshot: '' @ backupName)
                   (s2\<lparr>disk := cpSync (now_ms e) (\<lambda>src. \<not> includes_str src ''session.lock'')
                                  (disk s2) (serverDir s2) targetDir\<rparr>)))"

definition deleteBackup :: "env \<Rightarrow> string \<Rightarrow> string \<Rightarrow> mc \<Rightarrow> (error + unit) \<times> mc" where
  "deleteBackup e actor bid s =
     (let (backupDir, s1) = getBackupDir e s;
          dir = path_join backupDir bid
      in if existsSync (disk s1) dir
         then (Inr (),
               logSystem e (''[Backup] Snapshot '' @ [CHR 0x27] @ bid @ [CHR 0x27]
                              @ '' deleted by user: '' @ actor)
                 (s1\<lparr>disk := rmSync (disk s1) dir\<rparr>))
         else (Inr (), s1))"

definition restoreBackup :: "env \<Rightarrow> string \<Rightarrow> string \<Rightarrow> mc \<Rightarrow> (error + unit) \<times> mc" where
  "restoreBackup e actor bid s =
     (if status s \<noteq> OFFLINE then (Inl RestoreNeedsOffline, s)
      else
        let (backupDir, s1) = getBackupDir e s;
            backupSource = path_join backupDir bid
        in if \<not> existsSync (disk s1) backupSource then (Inl BackupNotFound, s1)
           else
             let s2 = logSystem e (''[Restore] Process initiated by user: '' @ actor) s1;
                 s3 = logSystem e (''[Restore] Restoring from '' @ bid @ ''...'') s2
             in if \<not> isDirectory (disk s3) (serverDir s3) then (Inl (IoError (serverDir s3)), s3)
                else
                  let files = readdirSync (disk s3) (serverDir s3);
                      wiped = foldl (\<lambda>d f. rmSync d (path_join (serverDir s3) f)) (disk s3) files;
                      copied = cpSync (now_ms e) (\<lambda>src. True) wiped backupSource (serverDir s3)
                  in (Inr (), logSystem e ''[Restore] Completed.'' (s3\<lparr>disk := copied\<rparr>)))"

subsection \<open>Deleting an instance\<close>

datatype backup_action = DELETE_ALL | KEEP_ALL | KEEP_LATEST

text \<open>\<open>Array.prototype.sort\<close> is stable: insertion by the comparator, from the right.\<close>

fun insert_by :: "('a \<Rightarrow> 'a \<Rightarrow> int) \<Rightarrow> 'a \<Rightarrow> 'a list \<Rightarrow> 'a list" where
  "insert_by cmp x [] = [x]"
| "insert_by cmp x (y # ys) = (if cmp x y \<le> 0 then x # y # ys else y # insert_by cmp x ys)"

definition sort_by :: "('a \<Rightarrow> 'a \<Rightarrow> int) \<Rightarrow> 'a list \<Rightarrow> 'a list" where
  "sort_by cmp xs = foldr (insert_by cmp) xs []"

definition deleteServer :: "env \<Rightarrow> string \<Rightarrow> backup_action \<Rightarrow> mc \<Rightarrow> (error + unit) \<times> mc" where
  "deleteServer e serverId backupAction s =
     (let targetDir = path_join (serversDir s) serverId;
          active = (case config s of Some c \<Rightarrow> cfg_id c = serverId | None \<Rightarrow> False)
      in if \<not> existsSync (disk s) targetDir then (Inl DeleteIdNotFound, s)
         else if active \<and> status s \<noteq> OFFLINE then (Inl CannotDeleteActive, s)
         else
           let backupsDir = path_join (backupsRoot s) serverId;
               s1 = (if existsSync (disk s) backupsDir
                     then (if backupAction = DELETE_ALL
                           then (let s' = logSystem e (''[Delete] Removing all backups for ''
                                                        @ serverId @ ''...'') s
                                 in s'\<lparr>disk := rmSync (disk s') backupsDir\<rparr>)
                           else if backupAction = KEEP_LATEST
                           then (let s' = logSystem e (''[Delete] Pruning backups for '' @ serverId
                                                        @ '' (Keeping latest)...'') s;
                                     backups = sort_by
                                        (\<lambda>a b. int (birthtimeMs (disk s') b) - int (birthtimeMs (disk s') a))
                                        (map (path_join backupsDir) (readdirSync (disk s') backupsDir))
                                 in s'\<lparr>disk := foldl rmSync (disk s') (tl backups)\<rparr>)
                           else s)
                     else s);
               s2 = logSystem e (''[Delete] Removing server files for '' @ serverId @ ''...'') s1;
               s3 = s2\<lparr>disk := rmSync (disk s2) targetDir\<rparr>
           in (Inr (),
               if active then s3\<lparr>config := None, serverDir := [], logs := []\<rparr> else s3))"

subsection \<open>Creating an instance\<close>

record creation_params =
  sc_name :: string
  sourceJarPath :: path
  port :: nat
  maxPlayers :: nat
  motd :: string
  sc_xmx :: string
  sc_xms :: string
  eulaAccepted :: bool

text \<open>
  \<open>params.name.toLowerCase().replace(/[^a-z0-9]/g, '-')\<close>. The pattern has no \<open>u\<close>
  flag, so it replaces UTF-16 code units, one by one. In the UTF-8 bytes of the name, a
  character of one, two or three bytes is one unit and a character of four bytes is
  two; the bytes 80 to BF continue a character. Outside ASCII, \<open>toLowerCase\<close> gives a
  unit in \<open>[a-z0-9]\<close> for two characters only: U+0130 (bytes C4 B0), which becomes \<open>i\<close>
  followed by U+0307, and the Kelvin sign U+212A (bytes E2 84 AA), which becomes \<open>k\<close>;
  every other character keeps its number of units, none of them in \<open>[a-z0-9]\<close>.
\<close>

definition continuation_byte :: "char \<Rightarrow> bool" where
  "continuation_byte c = (128 \<le> (of_char c :: nat) \<and> (of_char c :: nat) < 192)"

fun serverId_of :: "string \<Rightarrow> string" where
  "serverId_of [] = []"
| "serverId_of (c # cs) =
     (if continuation_byte c then serverId_of cs
      else if c = CHR 0xC4 \<and> startsWith cs [CHR 0xB0] then ''i-'' @ serverId_of cs
      else if c = CHR 0xE2 \<and> startsWith cs [CHR 0x84, CHR 0xAA] then CHR ''k'' # serverId_of cs
      else if 240 \<le> (of_char c :: nat) then ''--'' @ serverId_of cs
      else (if hd (toLowerCase [c]) \<in> set ''abcdefghijklmnopqrstuvwxyz0123456789''
            then hd (toLowerCase [c]) else CHR ''-'') # serverId_of cs)"

declare serverId_of.simps [simp del]

definition properties_text :: "creation_params \<Rightarrow> string \<Rightarrow> string" where
  "properties_text params rconPwd =
     join_with [CHR 0x0A]
       [''#Minecraft server properties'',
        ''#Created by Laplace Panel'',
        ''server-port='' @ string_of_nat (port params),
        ''enable-rcon=true'',
        ''rcon.port=25575'',
        ''rcon.password='' @ rconPwd,
        ''max-players='' @ string_of_nat (maxPlayers params),
        ''motd='' @ motd params,
        ''online-mode=true'',
        ''view-distance=10'']"

text \<open>The \<open>try\<close> block of \<open>createServer\<close>; the first failing step ends it.\<close>

definition create_files :: "env \<Rightarrow> creation_params \<Rightarrow> string \<Rightarrow> path \<Rightarrow> mc \<Rightarrow> (error + unit) \<times> mc" where
  "create_files e params serverId serverPath s =
     (if io_fails e serverPath then (Inl (IoError serverPath), s)
      else
        let d1 = mkdirSync (now_ms e) (disk s) serverPath;
            destJar = path_join serverPath ''server.jar''
        in if io_fails e destJar \<or> readFileSync d1 (sourceJarPath params) = None
           then (Inl (IoError destJar), s\<lparr>disk := d1\<rparr>)
           else
             let d2 = copyFileSync (now_ms e) d1 (sourceJarPath params) destJar;
                 eulaPath = path_join serverPath ''eula.txt''
             in if eulaAccepted params \<and> io_fails e eulaPath
                then (Inl (IoError eulaPath), s\<lparr>disk := d2\<rparr>)
                else
                  let d3 = (if eulaAccepted params
                            then writeFileSync (now_ms e) d2 eulaPath (Text ''eula=true'') else d2);
                      rconPwd = rand_hex e;
                      propsPath = path_join serverPath ''server.properties''
                  in if io_fails e propsPath then (Inl (IoError propsPath), s\<lparr>disk := d3\<rparr>)
                     else
                       let d4 = writeFileSync (now_ms e) d3 propsPath
                                  (Text (properties_text params rconPwd));
                           cfg = \<lparr>cfg_id = serverId, cfg_name = sc_name params,
                                  jarFile = ''server.jar'',
                                  javaArgs = \<lparr>xmx = (if sc_xmx params = [] then ''4G'' else sc_xmx params),
                                               xms = (if sc_xms params = [] then ''1G'' else sc_xms params),
                                               args = []\<rparr>,
                                  rconPort = 25575, rconPassword = Some rconPwd,
                                  autoRestart = True, created = now_ms e\<rparr>
                       in (case writeJsonAtomic e (path_join serverPath ''laplace.server.json'')
                                   (JsonConfig cfg) d4 of
                             (Inl err, d5) \<Rightarrow> (Inl err, s\<lparr>disk := d5\<rparr>)
                           | (Inr u, d5) \<Rightarrow>
                               selectServer serverId
                                 (logSystem e (''[System] Server '' @ [CHR 0x27] @ sc_name params
                                                 @ [CHR 0x27] @ '' created successfully (ID: ''
                                                 @ serverId @ '').'')
                                    (s\<lparr>disk := d5\<rparr>))))"

definition createServer :: "env \<Rightarrow> creation_params \<Rightarrow> mc \<Rightarrow> (error + string) \<times> mc" where
  "createServer e params s =
     (if \<not> existsSync (disk s) (sourceJarPath params)
      then (Inl (CoreFileNotFound (sourceJarPath params)), s)
      else
        let serverId = serverId_of (sc_name params);
            serverPath = path_join (serversDir s) serverId
        in if existsSync (disk s) serverPath then (Inl (ServerIdExists serverId), s)
           else (case create_files e params serverId serverPath s of
                   (Inr u, s1) \<Rightarrow> (Inr serverId, s1)
                 | (Inl err, s1) \<Rightarrow>
                     let s2 = (if existsSync (disk s1) serverPath
                                  \<and> length (readdirSync (disk s1) serverPath) < 3
                               then s1\<lparr>disk := rmSync (disk s1) serverPath\<rparr> else s1)
                     in (Inl err, logError e (''[Creation Failed] '' @ error_message err) s2)))"

text \<open>
  \<open>listServers\<close>, and the guard of the terminal command \<open>server create\<close> (ui.ts), which
  opens the creation wizard only when no instance is listed.
\<close>

definition listServers :: "mc \<Rightarrow> (string \<times> string) list" where
  "listServers s =
     (if \<not> existsSync (disk s) (serversDir s) then []
      else concat (map (\<lambda>f.
             let confPath = path_join (path_join (serversDir s) f) ''laplace.server.json'' in
             if existsSync (disk s) confPath
             then (case readFileSync (disk s) confPath of
                     Some (JsonConfig c) \<Rightarrow> [(f, if cfg_name c = [] then f else cfg_name c)]
                   | _ \<Rightarrow> [(f, ''Corrupted ('' @ f @ '')'')])
             else [])
           (filter (\<lambda>f. isDirectory (disk s) (path_join (serversDir s) f))
              (readdirSync (disk s) (serversDir s)))))"

datatype wizard = Blocked | WizardOpened

definition server_create_command :: "mc \<Rightarrow> wizard" where
  "server_create_command s = (if length (listServers s) > 0 then Blocked else WizardOpened)"

subsection \<open>Settings\<close>

text \<open>
  The payload's \<open>config\<close> is the object parsed from the request body. Its type is
  \<open>ServerConfig\<close>, but nothing checks that every field is there: a field is \<open>Some\<close>
  when the object has it. The spread \<open>{...this.config, ...data.config}\<close> takes each field
  from the payload when it has it, and from the stored descriptor otherwise; \<open>javaArgs\<close>
  is replaced as a whole. Properties of the payload that are no fields of \<open>ServerConfig\<close>
  are left out.
\<close>

record config_patch =
  p_id :: "string option"
  p_name :: "string option"
  p_jarFile :: "string option"
  p_javaArgs :: "java_args option"
  p_rconPort :: "nat option"
  p_rconPassword :: "string option"
  p_autoRestart :: "bool option"
  p_created :: "nat option"


record settings_payload =
  sp_config :: config_patch
  sp_properties :: "(string \<times> string) list"




subsection \<open>Commands\<close>

text \<open>
  \<open>response.replace(/..[0-9a-fk-or]/g, '')\<close>, where the two characters before the class
  are, in the source file, the bytes E0 B8 A2 E0 B8 87 (U+0E22 and U+0E07).
\<close>

definition color_prefix :: string where
  "color_prefix = [CHR 0xE0, CHR 0xB8, CHR 0xA2, CHR 0xE0, CHR 0xB8, CHR 0x87]"

definition color_code :: "char \<Rightarrow> bool" where
  "color_code c = (c \<in> set ''0123456789abcdefklmnor'')"

fun strip_colors :: "string \<Rightarrow> string" where
  "strip_colors (a # b # c # d # f # g # h # rest) =
     (if [a, b, c, d, f, g] = color_prefix \<and> color_code h then strip_colors rest
      else a # strip_colors (b # c # d # f # g # h # rest))"
| "strip_colors (a # rest) = a # strip_colors rest"
| "strip_colors [] = []"

text \<open>The section sign U+00A7 that introduces a colour code, in UTF-8.\<close>

definition section_sign :: string where
  "section_sign = [CHR 0xC2, CHR 0xA7]"

datatype rcon_reply = Reply string | Rejected string

text \<open>
  \<open>reply\<close> is what \<open>rcon.send\<close> settles to, \<open>stdin_ok\<close> whether the write to the child's
  input succeeds.
\<close>

definition executeCommand ::
    "env \<Rightarrow> string \<Rightarrow> string \<Rightarrow> rcon_reply \<Rightarrow> bool \<Rightarrow> mc \<Rightarrow> (error + string) \<times> mc" where
  "executeCommand e actor cmd reply stdin_ok s =
     (if status s \<noteq> ONLINE \<and> status s \<noteq> STARTING then (Inl ServerNotActive, s)
      else
        let s1 = log e (''['' @ actor @ ''] /'' @ cmd) info s in
        if (case rcon s1 of Some r \<Rightarrow> socket r | None \<Rightarrow> False)
        then (case reply of
                Reply response \<Rightarrow> (Inr (strip_colors response), s1)
              | Rejected m \<Rightarrow> (Inl (RconError m), logError e (''RCON Error: '' @ m) s1))
        else (case process s1 of
                Some p \<Rightarrow>
                  (case stdin p of
                     Some written \<Rightarrow>
                       if stdin_ok
                       then (Inr ''Command sent to process stdin (RCON unavailable).'',
                             s1\<lparr>process := Some (p\<lparr>stdin := Some (written @ cmd @ [CHR 0x0A])\<rparr>)\<rparr>)
                       else (Inl StdinWriteFailed, s1)
                   | None \<Rightarrow> (Inl NoExecutionInterface, s1))
              | None \<Rightarrow> (Inl NoExecutionInterface, s1)))"

subsection \<open>The player roster\<close>

text \<open>
  \<open>readJsonSafe\<close> gives back the parsed file, or the empty array when the file is
  missing, blank, unreadable or not JSON. \<open>forEach\<close> exists on arrays only: on any
  other parsed value the call throws a \<open>TypeError\<close>.
\<close>

definition readJsonSafe :: "mc \<Rightarrow> string \<Rightarrow> fdata" where
  "readJsonSafe s filename =
     (if serverDir s = [] then JsonEntries []
      else
        let target = path_join (serverDir s) filename in
        if \<not> existsSync (disk s) target then JsonEntries []
        else (case readFileSync (disk s) target of
                None \<Rightarrow> JsonEntries []
              | Some (Text t) \<Rightarrow> JsonEntries []
              | Some parsed \<Rightarrow> parsed))"

definition getLaplaceMeta :: "mc \<Rightarrow> (string \<times> string) list" where
  "getLaplaceMeta s =
     (if serverDir s = [] then []
      else
        let target = path_join (serverDir s) ''laplace.players.json'' in
        if \<not> existsSync (disk s) target then []
        else (case readFileSync (disk s) target of
                Some (JsonMeta m) \<Rightarrow> m
              | _ \<Rightarrow> []))"

fun forEach :: "fdata \<Rightarrow> error + (string \<times> string) list" where
  "forEach (JsonEntries es) = Inr es"
| "forEach other = Inl TypeError"

text \<open>
  \<open>playerMap\<close> is a \<open>Map\<close>: keys in insertion order, a key set again keeps its place.
  An entry of a source file is the pair of its \<open>uuid\<close> and \<open>name\<close>. An absent or empty
  \<open>meta\<close> is \<open>None\<close>.
\<close>

type_synonym player_map = "(string \<times> player) list"

definition getOrInit ::
    "mc \<Rightarrow> (string \<times> string) list \<Rightarrow> string \<Rightarrow> string \<Rightarrow> player_map \<Rightarrow> player_map" where
  "getOrInit s laplaceMeta uid nm playerMap =
     (if map_of playerMap uid \<noteq> None then playerMap
      else
        let linkedManagerUser =
              find (\<lambda>u. map_of (externalIds u) ''minecraft'' = Some uid) (users s)
        in playerMap @
           [(uid,
             \<lparr>uuid = uid, pname = nm, lastLogin = 0, isOnline = False, isOp = False,
              isBanned = False, isWhitelisted = False, psource = cache,
              avatarUrl = ''https://minotar.net/helm/'' @ nm @ ''/100.png'',
              meta = map_of laplaceMeta uid,
              linkedUser = map_option
                 (\<lambda>u. \<lparr>lu_id = user_id u, lu_username = username u,
                        lu_externalIds = externalIds u\<rparr>) linkedManagerUser\<rparr>)])"

definition flag_all ::
    "mc \<Rightarrow> (string \<times> string) list \<Rightarrow> (player \<Rightarrow> player) \<Rightarrow> (string \<times> string) list
      \<Rightarrow> player_map \<Rightarrow> player_map" where
  "flag_all s laplaceMeta f entries playerMap =
     foldl (\<lambda>pm p. AList.map_entry (fst p) f (getOrInit s laplaceMeta (fst p) (snd p) pm))
       playerMap entries"

definition static_roster :: "mc \<Rightarrow> error + player_map" where
  "static_roster s =
     (let laplaceMeta = getLaplaceMeta s in
      case forEach (readJsonSafe s ''usercache.json'') of Inl err \<Rightarrow> Inl err | Inr userCache \<Rightarrow>
      (case forEach (readJsonSafe s ''ops.json'') of Inl err \<Rightarrow> Inl err | Inr ops \<Rightarrow>
      (case forEach (readJsonSafe s ''banned-players.json'') of Inl err \<Rightarrow> Inl err | Inr banned \<Rightarrow>
      (case forEach (readJsonSafe s ''whitelist.json'') of Inl err \<Rightarrow> Inl err | Inr whitelist \<Rightarrow>
         Inr (flag_all s laplaceMeta (\<lambda>p. p\<lparr>isWhitelisted := True\<rparr>) whitelist
               (flag_all s laplaceMeta (\<lambda>p. p\<lparr>isBanned := True\<rparr>) banned
                 (flag_all s laplaceMeta (\<lambda>p. p\<lparr>isOp := True\<rparr>) ops
                   (flag_all s laplaceMeta (\<lambda>p. p\<lparr>psource := cache\<rparr>) userCache []))))))))"

text \<open>\<open>list.split('online:')[1]\<close>, for a list that includes the separator.\<close>

fun after_first :: "string \<Rightarrow> string \<Rightarrow> string" where
  "after_first sep [] = []"
| "after_first sep (x # xs) =
     (if startsWith (x # xs) sep then drop (length sep) (x # xs) else after_first sep xs)"

fun before_first :: "string \<Rightarrow> string \<Rightarrow> string" where
  "before_first sep [] = []"
| "before_first sep (x # xs) = (if startsWith (x # xs) sep then [] else x # before_first sep xs)"

definition mark_online :: "nat \<Rightarrow> string \<Rightarrow> player_map \<Rightarrow> player_map" where
  "mark_online now nm playerMap =
     (case find (\<lambda>kv. toLowerCase (pname (snd kv)) = toLowerCase nm) playerMap of
        Some kv \<Rightarrow> AList.map_entry (fst kv) (\<lambda>p. p\<lparr>isOnline := True, lastLogin := now\<rparr>) playerMap
      | None \<Rightarrow>
          AList.update (''online-'' @ nm)
            \<lparr>uuid = ''online-'' @ nm, pname = nm, lastLogin = now, isOnline = True, isOp = False,
             isBanned = False, isWhitelisted = False, psource = rcon_source,
             avatarUrl = ''https://minotar.net/helm/'' @ nm @ ''/100.png'',
             meta = None, linkedUser = None\<rparr> playerMap)"

definition player_cmp :: "player \<Rightarrow> player \<Rightarrow> int" where
  "player_cmp a b =
     (if isOnline a \<noteq> isOnline b then (if isOnline a then - 1 else 1)
      else int (lastLogin b) - int (lastLogin a))"

text \<open>\<open>live\<close> is what \<open>rcon.send('list')\<close> settles to, when it is sent.\<close>

definition getPlayers :: "env \<Rightarrow> rcon_reply \<Rightarrow> mc \<Rightarrow> (error + player list) \<times> mc" where
  "getPlayers e live s =
     (if serverDir s = [] then (Inr [], s)
      else (case static_roster s of
              Inl err \<Rightarrow> (Inl err, s)
            | Inr playerMap \<Rightarrow>
                let s1 = s\<lparr>onlinePlayers := []\<rparr>;
                    found =
                      (if status s1 = ONLINE \<and> rcon s1 \<noteq> None
                       then (case live of
                               Rejected m \<Rightarrow> None
                             | Reply lst \<Rightarrow>
                                 if lst \<noteq> [] \<and> includes_str lst ''online:''
                                 then (let part = before_first ''online:'' (after_first ''online:'' lst)
                                       in if trim part \<noteq> []
                                          then Some (filter (\<lambda>n. n \<noteq> [])
                                                       (map trim (split_on CHR '','' part)))
                                          else None)
                                 else None)
                       else None);
                    s2 = (case found of Some onlineNames \<Rightarrow> s1\<lparr>onlinePlayers := onlineNames\<rparr>
                                      | None \<Rightarrow> s1);
                    playerMap2 = (case found of
                                    Some onlineNames \<Rightarrow>
                                      foldl (\<lambda>pm n. mark_online (now_ms e) n pm) playerMap onlineNames
                                  | None \<Rightarrow> playerMap)
                in (Inr (sort_by player_cmp (map snd playerMap2)), updatePublicFile e s2)))"

text \<open>The five files a roster is built from.\<close>

definition roster_files :: "string list" where
  "roster_files = [''usercache.json'', ''ops.json'', ''banned-players.json'', ''whitelist.json'',
                   ''laplace.players.json'']"

section \<open>A sample installation\<close>

text \<open>
  Two instances, \<open>alpha\<close> and \<open>beta\<close>, under \<open>/data/servers\<close>, an uploaded jar, and the
  supervisor with \<open>alpha\<close> selected, offline and online. The statements with a
  hypothesis are instantiated on them.
\<close>

definition ex_env :: env where
  "ex_env = \<lparr>clean = trim, now_iso = ''2024-05-01T10:00:00.000Z'', now_ms = 1000,
             rand_hex = ''00112233aabbccdd'', io_fails = (\<lambda>p. False), spawn_throws = None\<rparr>"

definition ex_config :: "string \<Rightarrow> server_config" where
  "ex_config i =
     \<lparr>cfg_id = i, cfg_name = i, jarFile = ''server.jar'',
      javaArgs = \<lparr>xmx = ''4G'', xms = ''1G'', args = []\<rparr>,
      rconPort = 25575, rconPassword = Some ''secret'', autoRestart = True, created = 5\<rparr>"

definition ex_disk :: fs where
  "ex_disk =
     [(''/data/servers'', 1, Dir),
      (''/data/servers/alpha'', 5, Dir),
      (''/data/servers/alpha/laplace.server.json'', 5, File (JsonConfig (ex_config ''alpha''))),
      (''/data/servers/alpha/server.jar'', 5, File (Text ''jar'')),
      (''/data/servers/alpha/usercache.json'', 6,
         File (JsonEntries [(''u-1'', ''Steve''), (''u-2'', ''Alex'')])),
      (''/data/servers/alpha/ops.json'', 6, File (JsonEntries [(''u-2'', ''Alex'')])),
      (''/data/servers/beta'', 7, Dir),
      (''/data/servers/beta/laplace.server.json'', 7, File (JsonConfig (ex_config ''beta''))),
      (''/data/servers/beta/server.jar'', 7, File (Text ''jar'')),
      (''/tmp/upload.jar'', 8, File (Text ''jar''))]"

definition ex_offline :: mc where
  "ex_offline =
     (initial ''/data/servers'' [] ex_disk)
       \<lparr>config := Some (ex_config ''alpha''), serverDir := ''/data/servers/alpha''\<rparr>"

definition ex_online :: mc where
  "ex_online =
     ex_offline\<lparr>status := ONLINE,
                process := Some \<lparr>spawn_args = [], cwd = ''/data/servers/alpha'', stdin = Some []\<rparr>\<rparr>"

definition ex_starting :: mc where
  "ex_starting = ex_online\<lparr>status := STARTING\<rparr>"

definition ex_connected :: mc where
  "ex_connected =
     ex_online\<lparr>rcon := Some \<lparr>socket = True, rc_port = 25575, rc_password = ''secret''\<rparr>\<rparr>"

definition ex_params :: "string \<Rightarrow> creation_params" where
  "ex_params nm =
     \<lparr>sc_name = nm, sourceJarPath = ''/tmp/upload.jar'', port = 25565, maxPlayers = 20,
      motd = ''Laplace Server'', sc_xmx = ''4G'', sc_xms = ''1G'', eulaAccepted = True\<rparr>"

text \<open>
  An environment in which replacing the descriptor of \<open>alpha\<close> fails (the rename of
  \<open>writeJsonAtomic\<close> throws), and a settings payload that has one field of the
  descriptor, switching auto-restart off.
\<close>

definition ex_env_fail :: env where
  "ex_env_fail = ex_env\<lparr>io_fails := (\<lambda>p. p = ''/data/servers/alpha/laplace.server.json'')\<rparr>"

definition ex_payload :: settings_payload where
  "ex_payload =
     \<lparr>sp_config = \<lparr>p_id = None, p_name = None, p_jarFile = None, p_javaArgs = None,
                    p_rconPort = None, p_rconPassword = None, p_autoRestart = Some False,
                    p_created = None\<rparr>,
      sp_properties = [(''motd'', ''hello'')]\<rparr>"

text \<open>A fresh installation: no instance yet, and an uploaded jar.\<close>

definition ex_fresh :: mc where
  "ex_fresh = initial ''/data/servers'' []
                [(''/data/servers'', 2, Dir), (''/tmp/upload.jar'', 8, File (Text ''jar''))]"


text \<open>
  An installation with a snapshot \<open>nightly\<close> of \<open>alpha\<close>, taken when auto-restart was
  off, and an environment in which no file can be created or replaced through
  \<open>writeJsonAtomic\<close>.
\<close>

definition ex_snapshot_disk :: fs where
  "ex_snapshot_disk =
     [(''/data/servers'', 2, Dir),
      (''/data/servers/alpha'', 5, Dir),
      (''/data/servers/alpha/laplace.server.json'', 5, File (JsonConfig (ex_config ''alpha''))),
      (''/data/servers/alpha/server.jar'', 5, File (Text ''jar'')),
      (''/data/backups/alpha'', 6, Dir),
      (''/data/backups/alpha/nightly'', 6, Dir),
      (''/data/backups/alpha/nightly/laplace.server.json'', 6,
         File (JsonConfig ((ex_config ''alpha'')\<lparr>autoRestart := False\<rparr>))),
      (''/data/backups/alpha/nightly/server.jar'', 6, File (Text ''jar''))]"

definition ex_restorable :: mc where
  "ex_restorable =
     (initial ''/data/servers'' [] ex_snapshot_disk)
       \<lparr>config := Some (ex_config ''alpha''), serverDir := ''/data/servers/alpha''\<rparr>"

definition ex_env_no_write :: env where
  "ex_env_no_write = ex_env\<lparr>io_fails := (\<lambda>p. True)\<rparr>"

text \<open>
  The supervisor after \<open>alpha\<close> was started by hand and its process exited with code 1
  (the state is CRASHED and a respawn is due in five seconds), and after a second manual
  start, given in that state.
\<close>

definition ex_crashed :: mc where
  "ex_crashed = on_close ex_env (Some 1) (snd (loadAndStart ex_env ''alpha'' ''admin'' ex_offline))"

definition ex_restarted :: mc where
  "ex_restarted = snd (loadAndStart ex_env ''alpha'' ''admin'' ex_crashed)"

section \<open>Frame lemmas\<close>

text \<open>What logging, the snapshot write and a state change leave alone.\<close>

lemma log_frame [simp]:
  "crashCount (log e msg ty s) = crashCount s"
  "intentionToStop (log e msg ty s) = intentionToStop s"
  "config (log e msg ty s) = config s"
  "timers (log e msg ty s) = timers s"
  "status (log e msg ty s) = status s"
  "serverDir (log e msg ty s) = serverDir s"
  "serversDir (log e msg ty s) = serversDir s"
  "disk (log e msg ty s) = disk s"
  "rcon (log e msg ty s) = rcon s"
  "process (log e msg ty s) = process s"
  "users (log e msg ty s) = users s"
  "statusInterval (log e msg ty s) = statusInterval s"
  by (simp_all add: log_def Let_def)

lemma logSystem_frame [simp]:
  "crashCount (logSystem e msg s) = crashCount s"
  "intentionToStop (logSystem e msg s) = intentionToStop s"
  "config (logSystem e msg s) = config s"
  "timers (logSystem e msg s) = timers s"
  "status (logSystem e msg s) = status s"
  "serverDir (logSystem e msg s) = serverDir s"
  "serversDir (logSystem e msg s) = serversDir s"
  "disk (logSystem e msg s) = disk s"
  "rcon (logSystem e msg s) = rcon s"
  "process (logSystem e msg s) = process s"
  "users (logSystem e msg s) = users s"
  "statusInterval (logSystem e msg s) = statusInterval s"
  by (simp_all add: logSystem_def)

lemma logError_frame [simp]:
  "crashCount (logError e msg s) = crashCount s"
  "intentionToStop (logError e msg s) = intentionToStop s"
  "config (logError e msg s) = config s"
  "timers (logError e msg s) = timers s"
  "status (logError e msg s) = status s"
  "serverDir (logError e msg s) = serverDir s"
  "serversDir (logError e msg s) = serversDir s"
  "disk (logError e msg s) = disk s"
  "rcon (logError e msg s) = rcon s"
  "process (logError e msg s) = process s"
  "users (logError e msg s) = users s"
  "statusInterval (logError e msg s) = statusInterval s"
  by (simp_all add: logError_def)

lemma updatePublicFile_frame [simp]:
  "crashCount (updatePublicFile e s) = crashCount s"
  "intentionToStop (updatePublicFile e s) = intentionToStop s"
  "config (updatePublicFile e s) = config s"
  "timers (updatePublicFile e s) = timers s"
  "status (updatePublicFile e s) = status s"
  "serverDir (updatePublicFile e s) = serverDir s"
  "serversDir (updatePublicFile e s) = serversDir s"
  "rcon (updatePublicFile e s) = rcon s"
  "process (updatePublicFile e s) = process s"
  "users (updatePublicFile e s) = users s"
  "logs (updatePublicFile e s) = logs s"
  "statusInterval (updatePublicFile e s) = statusInterval s"
  by (simp_all add: updatePublicFile_def)

lemma updateState_frame [simp]:
  "crashCount (updateState e st s) = crashCount s"
  "intentionToStop (updateState e st s) = intentionToStop s"
  "config (updateState e st s) = config s"
  "timers (updateState e st s) = timers s"
  "status (updateState e st s) = st"
  "serverDir (updateState e st s) = serverDir s"
  "serversDir (updateState e st s) = serversDir s"
  "rcon (updateState e st s) = rcon s"
  "process (updateState e st s) = process s"
  "users (updateState e st s) = users s"
  "logs (updateState e st s) = logs s"
  by (simp_all add: updateState_def Let_def startStatusPoller_def stopStatusPoller_def)

lemma cleanup_frame [simp]:
  "crashCount (cleanup s) = crashCount s"
  "intentionToStop (cleanup s) = intentionToStop s"
  "config (cleanup s) = config s"
  "timers (cleanup s) = timers s"
  "status (cleanup s) = status s"
  "rcon (cleanup s) = None"
  "process (cleanup s) = None"
  by (simp_all add: cleanup_def stopStatusPoller_def)

lemma connectRcon_frame [simp]:
  "crashCount (connectRcon n s) = crashCount s"
  "intentionToStop (connectRcon n s) = intentionToStop s"
  "config (connectRcon n s) = config s"
  "status (connectRcon n s) = status s"
  "rcon (connectRcon n s) = rcon s"
  "RespawnTimer \<in> set (timers (connectRcon n s)) \<longleftrightarrow> RespawnTimer \<in> set (timers s)"
  by (simp_all add: connectRcon_def)

lemma spawnProcess_frame [simp]:
  "crashCount (spawnProcess e s) = crashCount s"
  "intentionToStop (spawnProcess e s) = intentionToStop s"
  "config (spawnProcess e s) = config s"
  "timers (spawnProcess e s) = timers s"
  by (simp_all add: spawnProcess_def Let_def split: option.splits)

lemma spawnProcess_status:
  "config s = Some c \<Longrightarrow> status (spawnProcess e s) = STARTING \<or> status (spawnProcess e s) = CRASHED"
  by (simp add: spawnProcess_def Let_def split: option.splits)

section \<open>Start is refused outside OFFLINE and CRASHED\<close>

text \<open>
  C1. In every lifecycle state other than OFFLINE and CRASHED, \<open>loadAndStart\<close> throws
  its lifecycle error (``Server is already running or busy'') and the supervisor is left
  exactly as it was: state, selected descriptor, crash counter, stop-intent flag and
  everything else.
\<close>

theorem loadAndStart_rejected:
  assumes "status s \<noteq> OFFLINE" and "status s \<noteq> CRASHED"
  shows "loadAndStart e serverId actor s = (Inl ServerBusy, s)
         \<and> InvalidLifecycleForOperation ServerBusy
         \<and> status (snd (loadAndStart e serverId actor s)) = status s
         \<and> config (snd (loadAndStart e serverId actor s)) = config s
         \<and> crashCount (snd (loadAndStart e serverId actor s)) = crashCount s
         \<and> intentionToStop (snd (loadAndStart e serverId actor s)) = intentionToStop s"
  using assms by (simp add: loadAndStart_def)

theorem loadAndStart_rejected_witness:
  "status ex_online \<noteq> OFFLINE \<and> status ex_online \<noteq> CRASHED
   \<and> loadAndStart ex_env ''alpha'' ''admin'' ex_online = (Inl ServerBusy, ex_online)"
  using loadAndStart_rejected [of ex_online ex_env "''alpha''" "''admin''"]
  by (simp add: ex_online_def ex_offline_def initial_def)

section \<open>The log buffer\<close>

lemma log_logs:
  "logs (log e msg ty s) =
     (if clean e msg = [] then logs s
      else let pushed = logs s @ [\<lparr>timestamp = now_iso e, message = clean e msg, ltype = ty\<rparr>]
           in if length pushed > MAX_LOGS then tl pushed else pushed)"
  by (simp add: log_def Let_def)

text \<open>
  C8. The buffer is capped at 500 entries: if it holds at most 500 before \<open>log\<close> runs, it
  holds at most 500 after. A message that is empty once cleaned changes nothing; any
  other is appended at the end, and when the buffer was full the entry dropped is the
  first, the oldest, so the rest stays in the order of appending.
\<close>

theorem log_buffer_cap:
  assumes "length (logs s) \<le> MAX_LOGS"
  shows "MAX_LOGS = 500
         \<and> length (logs (log e msg ty s)) \<le> MAX_LOGS
         \<and> logs (log e msg ty s) =
             (if clean e msg = [] then logs s
              else (if length (logs s) = MAX_LOGS then tl (logs s) else logs s)
                     @ [\<lparr>timestamp = now_iso e, message = clean e msg, ltype = ty\<rparr>])"
proof (cases "logs s")
  case Nil
  then show ?thesis by (simp add: log_logs MAX_LOGS_def)
next
  case (Cons x xs)
  with assms show ?thesis by (auto simp add: log_logs MAX_LOGS_def Let_def)
qed

theorem log_buffer_cap_witness:
  "length (logs (ex_offline\<lparr>logs := replicate 500 \<lparr>timestamp = ''t'', message = ''old'', ltype = info\<rparr>\<rparr>))
     \<le> MAX_LOGS
   \<and> length (logs (log ex_env ''hello'' info
        (ex_offline\<lparr>logs := replicate 500 \<lparr>timestamp = ''t'', message = ''old'', ltype = info\<rparr>\<rparr>))) = 500
   \<and> last (logs (log ex_env ''hello'' info
        (ex_offline\<lparr>logs := replicate 500 \<lparr>timestamp = ''t'', message = ''old'', ltype = info\<rparr>\<rparr>)))
       = \<lparr>timestamp = ''2024-05-01T10:00:00.000Z'', message = ''hello'', ltype = info\<rparr>"
  using log_buffer_cap [of "ex_offline\<lparr>logs := replicate 500 \<lparr>timestamp = ''t'', message = ''old'', ltype = info\<rparr>\<rparr>"
                           ex_env "''hello''" info]
  by (simp add: MAX_LOGS_def ex_env_def trim_def is_space_def)

text \<open>The same bound along any sequence of messages, from the empty buffer in particular.\<close>

lemma log_sequence_bounded:
  "length (logs s) \<le> MAX_LOGS \<Longrightarrow>
   length (logs (foldl (\<lambda>st m. log e (fst m) (snd m) st) s msgs)) \<le> MAX_LOGS"
proof (induction msgs arbitrary: s)
  case Nil
  then show ?case by simp
next
  case (Cons m msgs)
  have "length (logs (log e (fst m) (snd m) s)) \<le> MAX_LOGS"
    using Cons.prems by (cases "logs s") (auto simp add: log_logs MAX_LOGS_def Let_def)
  then show ?case using Cons.IH by simp
qed

text \<open>
  Every operation of the supervisor that logs does so through \<open>log\<close>, so each keeps the
  cap; \<open>deleteServer\<close> may also empty the buffer.
\<close>

lemma log_keeps_cap:
  "length (logs s) \<le> MAX_LOGS \<Longrightarrow> length (logs (log e msg ty s)) \<le> MAX_LOGS"
  by (cases "logs s") (auto simp add: log_logs MAX_LOGS_def Let_def)

lemma logSystem_keeps_cap:
  "length (logs s) \<le> MAX_LOGS \<Longrightarrow> length (logs (logSystem e msg s)) \<le> MAX_LOGS"
  by (simp add: logSystem_def log_keeps_cap)

lemma logError_keeps_cap:
  "length (logs s) \<le> MAX_LOGS \<Longrightarrow> length (logs (logError e msg s)) \<le> MAX_LOGS"
  by (simp add: logError_def log_keeps_cap)

lemma more_frames [simp]:
  "logs (cleanup s) = logs s"
  "logs (connectRcon n s) = logs s"
  "logs (snd (selectServer i s)) = logs s"
  by (simp_all add: cleanup_def stopStatusPoller_def connectRcon_def selectServer_def Let_def
        split: option.splits fdata.splits)

lemma spawnProcess_keeps_cap:
  "length (logs s) \<le> MAX_LOGS \<Longrightarrow> length (logs (spawnProcess e s)) \<le> MAX_LOGS"
  by (simp add: spawnProcess_def Let_def logSystem_keeps_cap logError_keeps_cap split: option.splits)

lemma handleCrash_keeps_cap:
  "length (logs s) \<le> MAX_LOGS \<Longrightarrow> length (logs (handleCrash e s)) \<le> MAX_LOGS"
  by (simp add: handleCrash_def Let_def logError_keeps_cap)

lemma on_close_keeps_cap:
  "length (logs s) \<le> MAX_LOGS \<Longrightarrow> length (logs (on_close e code s)) \<le> MAX_LOGS"
  by (simp add: on_close_def Let_def handleCrash_keeps_cap logSystem_keeps_cap)

lemma on_stdout_keeps_cap:
  "length (logs s) \<le> MAX_LOGS \<Longrightarrow> length (logs (on_stdout e str s)) \<le> MAX_LOGS"
  by (simp add: on_stdout_def Let_def log_keeps_cap)

lemma rcon_due_keeps_cap:
  "length (logs s) \<le> MAX_LOGS \<Longrightarrow> length (logs (rcon_due e n res s)) \<le> MAX_LOGS"
  by (simp add: rcon_due_def logSystem_keeps_cap logError_keeps_cap
        split: option.splits connect_result.splits)

lemma loadAndStart_keeps_cap:
  assumes "length (logs s) \<le> MAX_LOGS"
  shows "length (logs (snd (loadAndStart e serverId actor s))) \<le> MAX_LOGS"
proof -
  obtain r s1 where sel: "selectServer serverId s = (r, s1)"
    by (cases "selectServer serverId s")
  have s1: "length (logs s1) \<le> MAX_LOGS"
    using assms more_frames(3) [of serverId s] sel by simp
  have "length (logs (spawnProcess e
          (logSystem e (''[System] Start command received from user: '' @ actor)
             (updateState e STARTING (s1\<lparr>crashCount := 0, intentionToStop := False\<rparr>)))))
        \<le> MAX_LOGS"
    using s1 by (intro spawnProcess_keeps_cap logSystem_keeps_cap) simp
  then show ?thesis
    using assms s1 sel by (cases r) (simp_all add: loadAndStart_def Let_def)
qed

lemma executeCommand_keeps_cap:
  "length (logs s) \<le> MAX_LOGS \<Longrightarrow>
   length (logs (snd (executeCommand e actor cmd reply ok s))) \<le> MAX_LOGS"
  by (auto simp add: executeCommand_def Let_def log_keeps_cap logError_keeps_cap
        split: option.splits rcon_reply.splits)

section \<open>Evaluation on the sample installation\<close>

lemmas path_eval = path_join_def path_normalize_def dirname_def startsWith_def Let_def

lemmas fs_eval = existsSync_def isDirectory_def readFileSync_def birthtimeMs_def
  writeFileSync_def mkdirSync_def under_def rmSync_def readdirSync_def renameSync_def
  copyFileSync_def cpSync_def appendFile_def

lemmas ex_eval = ex_env_def ex_config_def ex_disk_def ex_offline_def ex_online_def
  ex_starting_def ex_connected_def ex_params_def ex_env_fail_def ex_payload_def ex_fresh_def
  ex_snapshot_disk_def ex_restorable_def ex_env_no_write_def initial_def

lemma ex_paths [simp]:
  "backupsRoot ex_offline = ''/data/backups''"
  "backupsRoot ex_online = ''/data/backups''"
  "publicPath ex_offline = ''/data/laplace.public.json''"
  "publicPath ex_online = ''/data/laplace.public.json''"
  by (simp_all add: backupsRoot_def publicPath_def ex_eval path_eval)

section \<open>Deleting a snapshot that is not there\<close>

lemma mkdirSync_keeps:
  "map_of d p = Some n \<Longrightarrow> map_of (mkdirSync now d q) p = Some n"
  by (cases "p = q") (simp_all add: mkdirSync_def existsSync_def update_conv')

lemma getBackupDir_keeps:
  "map_of (disk s) p = Some n \<Longrightarrow> map_of (disk (snd (getBackupDir e s))) p = Some n"
  by (simp add: getBackupDir_def Let_def mkdirSync_keeps)

lemma getBackupDir_frame [simp]:
  "logs (snd (getBackupDir e s)) = logs s"
  "appends (snd (getBackupDir e s)) = appends s"
  "status (snd (getBackupDir e s)) = status s"
  "config (snd (getBackupDir e s)) = config s"
  "serverDir (snd (getBackupDir e s)) = serverDir s"
  by (simp_all add: getBackupDir_def Let_def)

text \<open>
  C10. \<open>deleteBackup\<close> first asks \<open>getBackupDir\<close> for the instance's backup directory
  (which creates it when missing) and then looks the snapshot up. When no entry of that
  name is found, the call returns normally, with no error of any kind: nothing is
  removed (every entry of the disk is still there, unchanged), nothing is logged and no
  write to the log file is queued.
\<close>

theorem deleteBackup_missing_noop:
  assumes "\<not> existsSync (disk (snd (getBackupDir e s))) (path_join (fst (getBackupDir e s)) bid)"
  shows "fst (deleteBackup e actor bid s) = Inr ()
         \<and> snd (deleteBackup e actor bid s) = snd (getBackupDir e s)
         \<and> (\<forall>p n. map_of (disk s) p = Some n
                \<longrightarrow> map_of (disk (snd (deleteBackup e actor bid s))) p = Some n)
         \<and> logs (snd (deleteBackup e actor bid s)) = logs s
         \<and> appends (snd (deleteBackup e actor bid s)) = appends s"
proof -
  obtain bd s1 where g: "getBackupDir e s = (bd, s1)"
    by (cases "getBackupDir e s")
  have res: "deleteBackup e actor bid s = (Inr (), snd (getBackupDir e s))"
    using assms by (simp add: deleteBackup_def g)
  show ?thesis
    by (simp add: res getBackupDir_keeps)
qed

theorem deleteBackup_missing_noop_witness:
  "\<not> existsSync (disk (snd (getBackupDir ex_env ex_offline)))
        (path_join (fst (getBackupDir ex_env ex_offline)) ''nightly'')
   \<and> fst (deleteBackup ex_env ''admin'' ''nightly'' ex_offline) = Inr ()
   \<and> map_of (disk (snd (deleteBackup ex_env ''admin'' ''nightly'' ex_offline)))
        ''/data/servers/alpha/server.jar'' = Some (5, File (Text ''jar''))
   \<and> logs (snd (deleteBackup ex_env ''admin'' ''nightly'' ex_offline)) = []"
proof -
  have absent: "\<not> existsSync (disk (snd (getBackupDir ex_env ex_offline)))
                    (path_join (fst (getBackupDir ex_env ex_offline)) ''nightly'')"
    by (simp add: getBackupDir_def) (simp add: ex_eval path_eval fs_eval)
  have jar: "map_of (disk ex_offline) ''/data/servers/alpha/server.jar'' = Some (5, File (Text ''jar''))"
    by (simp add: ex_eval)
  have empty: "logs ex_offline = []"
    by (simp add: ex_eval)
  show ?thesis
    using deleteBackup_missing_noop [OF absent, of "''admin''"] absent jar empty by auto
qed

section \<open>Operations that need the instance offline\<close>

text \<open>
  C3, as the code has it. In every state other than OFFLINE: \<open>restoreBackup\<close> throws
  its lifecycle error; \<open>createBackup\<close> throws too, its lifecycle error once a server is
  loaded (the check for a loaded server comes first and has its own error); and
  \<open>deleteServer\<close> throws its lifecycle error when the instance named is the selected
  one and its directory exists. Each rejected call leaves the supervisor as it was.
  Deleting an instance that is not the selected one is not gated by the state.
\<close>

theorem offline_gate:
  assumes "status s \<noteq> OFFLINE"
  shows "restoreBackup e actor bid s = (Inl RestoreNeedsOffline, s)
         \<and> InvalidLifecycleForOperation RestoreNeedsOffline
         \<and> createBackup e actor label s =
             (Inl (if serverDir s = [] \<or> config s = None then NoServerLoaded
                   else BackupNeedsOffline), s)
         \<and> InvalidLifecycleForOperation BackupNeedsOffline
         \<and> ((case config s of Some c \<Rightarrow> cfg_id c = serverId | None \<Rightarrow> False)
              \<and> existsSync (disk s) (path_join (serversDir s) serverId)
              \<longrightarrow> deleteServer e serverId act s = (Inl CannotDeleteActive, s))
         \<and> InvalidLifecycleForOperation CannotDeleteActive"
  using assms
  by (simp add: restoreBackup_def createBackup_def deleteServer_def Let_def)

theorem offline_gate_witness:
  "status ex_online \<noteq> OFFLINE
   \<and> restoreBackup ex_env ''admin'' ''nightly'' ex_online = (Inl RestoreNeedsOffline, ex_online)
   \<and> createBackup ex_env ''admin'' None ex_online = (Inl BackupNeedsOffline, ex_online)
   \<and> deleteServer ex_env ''alpha'' DELETE_ALL ex_online = (Inl CannotDeleteActive, ex_online)"
proof -
  have st: "status ex_online \<noteq> OFFLINE"
    by (simp add: ex_eval)
  have loaded: "\<not> (serverDir ex_online = [] \<or> config ex_online = None)"
    by (simp add: ex_eval)
  have active: "(case config ex_online of Some c \<Rightarrow> cfg_id c = ''alpha'' | None \<Rightarrow> False)
                \<and> existsSync (disk ex_online) (path_join (serversDir ex_online) ''alpha'')"
    by (simp add: ex_eval path_eval fs_eval)
  show ?thesis
    using offline_gate [OF st, of ex_env "''admin''" "''nightly''" None "''alpha''" DELETE_ALL]
      st loaded active
    by simp
qed

text \<open>
  The claim as written fails: with \<open>alpha\<close> selected and ONLINE, \<open>deleteServer\<close> removes
  the other instance, \<open>beta\<close>, and returns normally.
\<close>

theorem deleteServer_other_instance_while_online:
  "status ex_online = ONLINE
   \<and> existsSync (disk ex_online) ''/data/servers/beta''
   \<and> fst (deleteServer ex_env ''beta'' KEEP_ALL ex_online) = Inr ()
   \<and> \<not> existsSync (disk (snd (deleteServer ex_env ''beta'' KEEP_ALL ex_online))) ''/data/servers/beta''
   \<and> status (snd (deleteServer ex_env ''beta'' KEEP_ALL ex_online)) = ONLINE"
proof -
  have tgt: "path_join (serversDir ex_online) ''beta'' = ''/data/servers/beta''"
    by (simp add: ex_eval path_eval)
  have bk: "path_join (backupsRoot ex_online) ''beta'' = ''/data/backups/beta''"
    by (simp add: path_eval)
  have st: "status ex_online = ONLINE"
    by (simp add: ex_eval)
  have there: "existsSync (disk ex_online) ''/data/servers/beta''"
    by (simp add: ex_eval existsSync_def)
  have nobk: "\<not> existsSync (disk ex_online) ''/data/backups/beta''"
    by (simp add: ex_eval existsSync_def)
  have other: "config ex_online = Some (ex_config ''alpha'')" "cfg_id (ex_config ''alpha'') \<noteq> ''beta''"
    by (simp_all add: ex_eval)
  have res: "deleteServer ex_env ''beta'' KEEP_ALL ex_online =
               (Inr (), (logSystem ex_env (''[Delete] Removing server files for '' @ ''beta'' @ ''...'') ex_online)
                          \<lparr>disk := rmSync (disk ex_online) ''/data/servers/beta''\<rparr>)"
    unfolding deleteServer_def tgt bk Let_def
    by (simp only: there nobk other option.case if_True if_False
          simp_thms logSystem_frame)
  have gone: "\<not> existsSync (rmSync (disk ex_online) ''/data/servers/beta'') ''/data/servers/beta''"
    by (simp add: ex_eval existsSync_def rmSync_def under_def startsWith_def)
  show ?thesis
    by (simp add: res st there gone)
qed

section \<open>Colour codes in command responses\<close>

text \<open>
  C6, on the code. With a control-channel session open, a response that carries the
  colour code U+00A7 \<open>a\<close> comes back from \<open>executeCommand\<close> unchanged; what the pattern
  in the source removes is the sequence U+0E22 U+0E07 followed by a code character.
\<close>

theorem executeCommand_section_sign_kept:
  "fst (executeCommand ex_env ''admin'' ''list'' (Reply (section_sign @ ''aHello'')) True ex_connected)
     = Inr (section_sign @ ''aHello'')
   \<and> fst (executeCommand ex_env ''admin'' ''list'' (Reply (color_prefix @ ''aHello'')) True ex_connected)
     = Inr ''Hello''"
proof -
  have live: "status ex_connected = ONLINE" "rcon ex_connected = Some \<lparr>socket = True, rc_port = 25575, rc_password = ''secret''\<rparr>"
    by (simp_all add: ex_eval)
  show ?thesis
    by (simp add: executeCommand_def live section_sign_def color_prefix_def color_code_def)
qed

section \<open>Control-channel connection attempts\<close>



















section \<open>Paths\<close>

lemma split_on_nonempty: "split_on c xs \<noteq> []"
  by (induction xs) (auto split: list.splits)

lemma split_on_none: "c \<notin> set f \<Longrightarrow> split_on c f = [f]"
  by (induction f) auto

lemma split_on_snoc:
  "c \<notin> set f \<Longrightarrow> split_on c (a @ c # f) = split_on c a @ [f]"
proof (induction a)
  case Nil
  then show ?case by (simp add: split_on_none)
next
  case (Cons x a)
  then show ?case
    using split_on_nonempty [of c a] by (cases "split_on c a") auto
qed

lemma norm_segs_snoc:
  "f \<noteq> [] \<Longrightarrow> f \<noteq> ''.'' \<Longrightarrow> f \<noteq> ''..'' \<Longrightarrow>
   norm_segs ab acc (xs @ [f]) = norm_segs ab acc xs @ [f]"
  by (induction xs arbitrary: acc) (auto split: list.splits)

lemma join_with_snoc:
  "join_with sep (ys @ [f]) = (if ys = [] then f else join_with sep ys @ sep @ f)"
  by (induction sep ys rule: join_with.induct) auto

lemma takeWhile_no_sep:
  "CHR ''/'' \<notin> set f \<Longrightarrow>
   takeWhile (\<lambda>c. c \<noteq> CHR ''/'') (rev f @ rest) = rev f @ takeWhile (\<lambda>c. c \<noteq> CHR ''/'') rest"
  by (rule takeWhile_append2) auto

lemma basename_plain:
  assumes "CHR ''/'' \<notin> set f"
  shows "basename f = f"
proof -
  have "takeWhile (\<lambda>c. c \<noteq> CHR ''/'') (rev f) = rev f"
    using assms by (intro takeWhile_eq_all_conv [THEN iffD2]) auto
  then show ?thesis
    unfolding basename_def by (simp only: rev_rev_ident)
qed

lemma basename_after_sep: "CHR ''/'' \<notin> set f \<Longrightarrow> basename (pre @ CHR ''/'' # f) = f"
  by (simp add: basename_def takeWhile_no_sep)

lemma path_normalize_basename:
  assumes "plain_name f"
  shows "basename (path_normalize (a @ CHR ''/'' # f)) = f"
proof -
  from assms have f: "f \<noteq> []" "CHR ''/'' \<notin> set f" "f \<noteq> ''.''" "f \<noteq> ''..''"
    by (simp_all add: plain_name_def)
  let ?p = "a @ CHR ''/'' # f"
  let ?segs = "norm_segs (hd ?p \<noteq> CHR ''/'') [] (split_on CHR ''/'' a)"
  have last: "last ?p \<noteq> CHR ''/''"
    using f by (metis in_set_conv_decomp last_appendR last_in_set list.distinct(1) last_ConsR)
  have body: "join_with ''/'' (norm_segs (hd ?p \<noteq> CHR ''/'') [] (split_on CHR ''/'' ?p))
                = (if ?segs = [] then f else join_with ''/'' ?segs @ CHR ''/'' # f)"
    using f by (simp add: split_on_snoc norm_segs_snoc join_with_snoc)
  have nonempty: "join_with ''/'' (norm_segs (hd ?p \<noteq> CHR ''/'') [] (split_on CHR ''/'' ?p)) \<noteq> []"
    using f by (simp add: body)
  have "path_normalize ?p
          = (if hd ?p = CHR ''/'' then ''/'' else [])
            @ (if ?segs = [] then f else join_with ''/'' ?segs @ CHR ''/'' # f)"
    using last nonempty body by (simp add: path_normalize_def Let_def)
  then show ?thesis
    using f by (auto simp add: basename_after_sep basename_plain
                  basename_after_sep [of f "[]", simplified]
                  basename_after_sep [of f "CHR ''/'' # xs" for xs, simplified])
qed

lemma path_join_basename:
  assumes "plain_name f"
  shows "basename (path_join a f) = f"
proof (cases "a = []")
  case True
  from assms have f: "f \<noteq> []" "CHR ''/'' \<notin> set f" "f \<noteq> ''.''" "f \<noteq> ''..''"
    by (simp_all add: plain_name_def)
  then have hd: "hd f \<noteq> CHR ''/''" and last: "last f \<noteq> CHR ''/''"
    by (metis hd_in_set, metis last_in_set)
  have "path_normalize f = f"
    using f hd last by (simp add: path_normalize_def Let_def split_on_none)
  then show ?thesis
    using True f by (simp add: path_join_def basename_plain)
next
  case False
  from assms have "f \<noteq> []" by (simp add: plain_name_def)
  then show ?thesis
    using False path_normalize_basename [OF assms, of a] by (simp add: path_join_def)
qed


lemma basename_suffix:
  "CHR ''/'' \<notin> set t \<Longrightarrow> basename (p @ t) = basename p @ t"
  by (simp add: basename_def takeWhile_no_sep)

section \<open>Atomic replacement of structured state\<close>

lemma writeFileSync_other:
  "q \<noteq> p \<Longrightarrow> map_of (writeFileSync now d p c) q = map_of d q"
  by (simp add: writeFileSync_def update_conv' split: option.splits prod.splits)


lemma writeFileSync_exists:
  "map_of (writeFileSync now d p c) p \<noteq> None"
  by (simp add: writeFileSync_def update_conv' split: option.splits prod.splits)

lemma renameSync_map_of:
  "map_of d a = Some n \<Longrightarrow> map_of (renameSync d a b) = ((map_of d)(a := None))(b \<mapsto> n)"
  by (simp add: renameSync_def update_conv' delete_conv')

lemma tmp_differs [simp]: "p @ ''.tmp'' \<noteq> p"
proof
  assume "p @ ''.tmp'' = p"
  then have "length (p @ ''.tmp'') = length p" by simp
  then show False by simp
qed

lemma writeJsonAtomic_result:
  "fst (writeJsonAtomic e p c d) =
     (if io_fails e (p @ ''.tmp'') then Inl (IoError (p @ ''.tmp''))
      else if io_fails e p then Inl (IoError p) else Inr ())"
  by (simp add: writeJsonAtomic_def Let_def)



text \<open>\<open>writeJsonAtomic\<close> touches the target and its temporary sibling, nothing else.\<close>

lemma writeJsonAtomic_other:
  assumes "q \<noteq> p" and "q \<noteq> p @ ''.tmp''"
  shows "map_of (snd (writeJsonAtomic e p c d)) q = map_of d q"
proof -
  let ?d1 = "writeFileSync (now_ms e) d (p @ ''.tmp'') c"
  obtain n where n: "map_of ?d1 (p @ ''.tmp'') = Some n"
    using writeFileSync_exists [of "now_ms e" d "p @ ''.tmp''" c] by auto
  have "map_of (renameSync ?d1 (p @ ''.tmp'') p) q = map_of d q"
    using assms n by (simp add: renameSync_map_of writeFileSync_other)
  then show ?thesis
    using assms by (simp add: writeJsonAtomic_def Let_def writeFileSync_other)
qed

lemma plain_names [simp]:
  "plain_name ''laplace.server.json''" "plain_name ''server.properties''"
  "plain_name ''laplace.public.json''" "plain_name ''usercache.json''" "plain_name ''ops.json''"
  "plain_name ''banned-players.json''" "plain_name ''whitelist.json''"
  "plain_name ''laplace.players.json''"
  by (simp_all add: plain_name_def)

lemma publicPath_basename:
  "basename (publicPath s) = ''laplace.public.json''"
  "basename (publicPath s @ ''.tmp'') = ''laplace.public.json.tmp''"
  by (simp_all add: publicPath_def path_join_basename basename_suffix)

text \<open>The snapshot write leaves every file with another name alone.\<close>

lemma updatePublicFile_other:
  assumes "basename q \<noteq> ''laplace.public.json''" and "basename q \<noteq> ''laplace.public.json.tmp''"
  shows "map_of (disk (updatePublicFile e s)) q = map_of (disk s) q"
proof -
  have "q \<noteq> publicPath s" "q \<noteq> publicPath s @ ''.tmp''"
    using assms publicPath_basename by auto
  then show ?thesis
    by (simp add: updatePublicFile_def writeJsonAtomic_other)
qed








section \<open>Crash recovery\<close>

lemma more_field_frames [simp]:
  "disk (cleanup s) = disk s" "serverDir (cleanup s) = serverDir s" "serversDir (cleanup s) = serversDir s"
  "disk (connectRcon n s) = disk s" "serverDir (connectRcon n s) = serverDir s"
  "serversDir (connectRcon n s) = serversDir s" "process (connectRcon n s) = process s"
  "count_list (timers (connectRcon n s)) RespawnTimer = count_list (timers s) RespawnTimer"
  by (simp_all add: cleanup_def stopStatusPoller_def connectRcon_def)

lemma handleCrash_frame [simp]:
  "disk (handleCrash e s) = disk s" "serverDir (handleCrash e s) = serverDir s"
  "serversDir (handleCrash e s) = serversDir s" "config (handleCrash e s) = config s"
  "status (handleCrash e s) = status s" "intentionToStop (handleCrash e s) = intentionToStop s"
  "process (handleCrash e s) = process s"
  by (simp_all add: handleCrash_def Let_def)

lemma selectServer_disk [simp]:
  "disk (snd (selectServer i s)) = disk s" "serversDir (snd (selectServer i s)) = serversDir s"
  "timers (snd (selectServer i s)) = timers s"
  by (simp_all add: selectServer_def Let_def split: option.splits fdata.splits)

text \<open>
  The supervisor's own writes during a run are those of the status snapshot: every other
  file is as it was after an output line, an exit, a respawn and a manual start.
\<close>

lemma updateState_other:
  assumes "basename q \<noteq> ''laplace.public.json''" and "basename q \<noteq> ''laplace.public.json.tmp''"
  shows "map_of (disk (updateState e st s)) q = map_of (disk s) q"
  by (simp add: updateState_def Let_def startStatusPoller_def stopStatusPoller_def
        updatePublicFile_other [OF assms])

lemma spawnProcess_other:
  assumes "basename q \<noteq> ''laplace.public.json''" and "basename q \<noteq> ''laplace.public.json.tmp''"
  shows "map_of (disk (spawnProcess e s)) q = map_of (disk s) q"
  by (simp add: spawnProcess_def Let_def updateState_other [OF assms] split: option.splits)

lemma spawnProcess_dirs [simp]:
  "serverDir (spawnProcess e s) = serverDir s" "serversDir (spawnProcess e s) = serversDir s"
  by (simp_all add: spawnProcess_def Let_def split: option.splits)

lemma on_stdout_other:
  assumes "basename q \<noteq> ''laplace.public.json''" and "basename q \<noteq> ''laplace.public.json.tmp''"
  shows "map_of (disk (on_stdout e str s)) q = map_of (disk s) q"
  by (simp add: on_stdout_def Let_def updateState_other [OF assms])

lemma on_stdout_dirs [simp]:
  "serverDir (on_stdout e str s) = serverDir s" "serversDir (on_stdout e str s) = serversDir s"
  "config (on_stdout e str s) = config s"
  by (simp_all add: on_stdout_def Let_def)

lemma on_close_other:
  assumes "basename q \<noteq> ''laplace.public.json''" and "basename q \<noteq> ''laplace.public.json.tmp''"
  shows "map_of (disk (on_close e code s)) q = map_of (disk s) q"
  by (simp add: on_close_def Let_def updateState_other [OF assms])

lemma on_close_dirs [simp]:
  "serverDir (on_close e code s) = serverDir s" "serversDir (on_close e code s) = serversDir s"
  "config (on_close e code s) = config s"
  by (simp_all add: on_close_def Let_def)

lemma launchable_kept:
  assumes "launchable s" and "config s' = config s" and "serverDir s' = serverDir s"
    and "\<And>q. basename q \<noteq> ''laplace.public.json'' \<Longrightarrow> basename q \<noteq> ''laplace.public.json.tmp''
              \<Longrightarrow> map_of (disk s') q = map_of (disk s) q"
  shows "launchable s'"
  using assms by (auto simp add: launchable_def existsSync_def split: option.splits)

text \<open>In such a state, unless \<open>spawn\<close> throws, \<open>spawnProcess\<close> leaves a child running.\<close>

lemma spawnProcess_launch:
  assumes "launchable s" and "spawn_throws e = None"
  shows "status (spawnProcess e s) = STARTING" and "process (spawnProcess e s) \<noteq> None"
    and "launchable (spawnProcess e s)"
proof -
  obtain c where c: "config s = Some c"
    and jar: "existsSync (disk s) (path_join (serverDir s) (jarFile c))"
    and names: "basename (path_join (serverDir s) (jarFile c)) \<noteq> ''laplace.public.json''"
      "basename (path_join (serverDir s) (jarFile c)) \<noteq> ''laplace.public.json.tmp''"
    using assms(1) by (auto simp add: launchable_def split: option.splits)
  have there: "existsSync (disk (updateState e STARTING s)) (path_join (serverDir s) (jarFile c))"
    using jar updateState_other [OF names, of e STARTING s] by (simp add: existsSync_def)
  show "status (spawnProcess e s) = STARTING" and "process (spawnProcess e s) \<noteq> None"
    using there by (simp_all add: spawnProcess_def c Let_def assms(2))
  show "launchable (spawnProcess e s)"
    using assms(1) by (rule launchable_kept) (simp_all add: spawnProcess_other)
qed

lemma spawnProcess_not_restarting:
  "status s \<noteq> RESTARTING \<Longrightarrow> status (spawnProcess e s) \<noteq> RESTARTING"
  by (simp add: spawnProcess_def Let_def split: option.splits)

lemma count_remove1: "x \<in> set xs \<Longrightarrow> count_list (remove1 x xs) x = count_list xs x - 1"
  by (induction xs) auto

lemma outputs_kept:
  "armed s \<Longrightarrow>
   armed (foldl (\<lambda>st str. on_stdout e str st) s outs)
   \<and> crashCount (foldl (\<lambda>st str. on_stdout e str st) s outs) = crashCount s
   \<and> count_list (timers (foldl (\<lambda>st str. on_stdout e str st) s outs)) RespawnTimer
       = count_list (timers s) RespawnTimer"
proof (induction outs arbitrary: s)
  case Nil
  then show ?case by simp
next
  case (Cons str outs)
  have "armed (on_stdout e str s) \<and> crashCount (on_stdout e str s) = crashCount s
        \<and> count_list (timers (on_stdout e str s)) RespawnTimer = count_list (timers s) RespawnTimer"
    using Cons.prems by (simp add: armed_def on_stdout_def Let_def)
  then show ?case
    using Cons.IH [of "on_stdout e str s"] by simp
qed

lemma outputs_launchable:
  "launchable s \<Longrightarrow> launchable (foldl (\<lambda>st str. on_stdout e str st) s outs)"
proof (induction outs arbitrary: s)
  case Nil
  then show ?case by simp
next
  case (Cons str outs)
  have "launchable (on_stdout e str s)"
    using Cons.prems by (rule launchable_kept) (simp_all add: on_stdout_other)
  then show ?case
    using Cons.IH by simp
qed

text \<open>
  One unintended exit: the counter goes up by one, the state is CRASHED with no child,
  and a respawn is scheduled exactly when the new count is at most 3; respawns pending
  from before stay pending.
\<close>

lemma on_close_crash:
  assumes "armed s" and "unintended code"
  shows "crashCount (on_close e code s) = crashCount s + 1"
    and "status (on_close e code s) = CRASHED"
    and "\<not> intentionToStop (on_close e code s)"
    and "process (on_close e code s) = None"
    and "timers (on_close e code s) = (if crashCount s + 1 \<le> 3 then timers s @ [RespawnTimer] else timers s)"
  using assms
  by (simp_all add: armed_def unintended_def on_close_def handleCrash_def Let_def split: option.splits)

text \<open>
  One round of a run. After the exit the state is CRASHED; when a respawn timer is
  pending then, its callback leaves the supervisor ready for the next crash, with the
  counter as the exit left it and one timer less.
\<close>

lemma crash_round:
  fixes e :: env and outs :: "string list" and code :: "int option" and s :: mc
  assumes "armed s" and "unintended code"
  defines "s1 \<equiv> on_close e code (foldl (\<lambda>st str. on_stdout e str st) s outs)"
  defines "s2 \<equiv> respawn_due e (s1\<lparr>timers := remove1 RespawnTimer (timers s1)\<rparr>)"
  shows "status s1 = CRASHED \<and> process s1 = None
         \<and> count_list (timers s1) RespawnTimer
             = count_list (timers s) RespawnTimer + (if crashCount s + 1 \<le> 3 then 1 else 0)"
    and "RespawnTimer \<in> set (timers s1) \<Longrightarrow>
           armed s2 \<and> crashCount s2 = crashCount s + 1
           \<and> count_list (timers s2) RespawnTimer
               = count_list (timers s) RespawnTimer + (if crashCount s + 1 \<le> 3 then 1 else 0) - 1"
    and "launchable s \<Longrightarrow> spawn_throws e = None \<Longrightarrow>
           launchable s2 \<and> status s2 = STARTING \<and> process s2 \<noteq> None"
proof -
  let ?s0 = "foldl (\<lambda>st str. on_stdout e str st) s outs"
  note out = outputs_kept [OF assms(1), of e outs]
  note close = on_close_crash [OF out [THEN conjunct1] assms(2), of e]
  have cnt: "count_list (timers s1) RespawnTimer
               = count_list (timers s) RespawnTimer + (if crashCount s + 1 \<le> 3 then 1 else 0)"
    using close(5) out by (simp add: s1_def)
  show "status s1 = CRASHED \<and> process s1 = None
         \<and> count_list (timers s1) RespawnTimer
             = count_list (timers s) RespawnTimer + (if crashCount s + 1 \<le> 3 then 1 else 0)"
    using close(2,4) cnt by (simp add: s1_def)
  have auto_on: "case config s1 of Some c \<Rightarrow> autoRestart c | None \<Rightarrow> True"
    using out by (simp add: s1_def armed_def)
  have spawn: "s2 = spawnProcess e (s1\<lparr>timers := remove1 RespawnTimer (timers s1)\<rparr>)"
    using close(3) by (simp add: s2_def s1_def respawn_due_def)
  show "armed s2 \<and> crashCount s2 = crashCount s + 1
           \<and> count_list (timers s2) RespawnTimer
               = count_list (timers s) RespawnTimer + (if crashCount s + 1 \<le> 3 then 1 else 0) - 1"
    if "RespawnTimer \<in> set (timers s1)"
  proof -
    have "status s2 \<noteq> RESTARTING"
      unfolding spawn by (rule spawnProcess_not_restarting) (simp add: s1_def close(2))
    moreover have "\<not> intentionToStop s2"
      unfolding spawn using close(3) by (simp add: s1_def)
    moreover have "config s2 = config s1"
      unfolding spawn by simp
    moreover have "crashCount s2 = crashCount s + 1"
      unfolding spawn using close(1) out by (simp add: s1_def)
    moreover have "count_list (timers s2) RespawnTimer = count_list (timers s1) RespawnTimer - 1"
      unfolding spawn using that by (simp add: count_remove1)
    ultimately show ?thesis
      using auto_on cnt by (simp add: armed_def)
  qed
  show "launchable s2 \<and> status s2 = STARTING \<and> process s2 \<noteq> None"
    if l: "launchable s" and ok: "spawn_throws e = None"
  proof -
    have "launchable s1"
      unfolding s1_def
      by (rule launchable_kept [OF outputs_launchable [OF l]]) (simp_all add: on_close_other)
    then have "launchable (s1\<lparr>timers := remove1 RespawnTimer (timers s1)\<rparr>)"
      by (rule launchable_kept) simp_all
    then show ?thesis
      unfolding spawn using ok by (simp add: spawnProcess_launch)
  qed
qed

text \<open>
  A run of unintended exits from a state with the counter at \<open>c\<close> and \<open>p\<close> respawns
  pending. Each exit with a new count of at most 3 schedules a respawn, and each round
  fires one while any is pending: the respawns are \<open>3 - c + p\<close>, or as many as there are
  exits if these are fewer. When the exits outnumber them, the last exit leaves the state
  CRASHED, with no child and no respawn scheduled. When the jar is there and \<open>spawn\<close>
  does not throw, every respawn leaves a child running.
\<close>

lemma crash_run_respawns:
  assumes "armed s" and "\<forall>r \<in> set rounds. unintended (snd (snd r))"
  shows "length (fst (crash_run rounds s))
           = min (length rounds) (3 - crashCount s + count_list (timers s) RespawnTimer)
         \<and> (3 - crashCount s + count_list (timers s) RespawnTimer < length rounds
              \<longrightarrow> status (snd (crash_run rounds s)) = CRASHED
                  \<and> RespawnTimer \<notin> set (timers (snd (crash_run rounds s)))
                  \<and> process (snd (crash_run rounds s)) = None)
         \<and> (launchable s \<and> (\<forall>r \<in> set rounds. spawn_throws (fst r) = None)
              \<longrightarrow> None \<notin> set (fst (crash_run rounds s))
                  \<and> (rounds \<noteq> [] \<and> length rounds \<le> 3 - crashCount s + count_list (timers s) RespawnTimer
                       \<longrightarrow> status (snd (crash_run rounds s)) = STARTING
                           \<and> process (snd (crash_run rounds s)) \<noteq> None))"
  using assms
proof (induction rounds arbitrary: s)
  case Nil
  then show ?case by simp
next
  case (Cons r rounds)
  obtain e outs code where r: "r = (e, outs, code)"
    by (cases r)
  let ?s1 = "on_close e code (foldl (\<lambda>st str. on_stdout e str st) s outs)"
  let ?s2 = "respawn_due e (?s1\<lparr>timers := remove1 RespawnTimer (timers ?s1)\<rparr>)"
  let ?k = "3 - crashCount s + count_list (timers s) RespawnTimer"
  have code: "unintended code"
    using Cons.prems(2) r by simp
  note round = crash_round [OF Cons.prems(1) code, of e outs]
  show ?case
  proof (cases "RespawnTimer \<in> set (timers ?s1)")
    case False
    then have none: "count_list (timers ?s1) RespawnTimer = 0"
      using count_list_0_iff [of "timers ?s1" RespawnTimer] by auto
    then have k: "?k = 0"
      using round(1) by (auto split: if_splits)
    have run: "crash_run (r # rounds) s = ([], ?s1)"
      using False r by (simp add: Let_def)
    show ?thesis
      unfolding run using round(1) False k by simp
  next
    case True
    note next_state = round(2) [OF True]
    have pos: "0 < count_list (timers ?s1) RespawnTimer"
      using True count_list_0_iff [of "timers ?s1" RespawnTimer] by auto
    have k: "0 < ?k" and k2: "3 - crashCount ?s2 + count_list (timers ?s2) RespawnTimer = ?k - 1"
      using next_state round(1) pos by (auto split: if_splits)
    have rest: "\<forall>r \<in> set rounds. unintended (snd (snd r))"
      using Cons.prems(2) by simp
    note ih = Cons.IH [OF next_state [THEN conjunct1] rest, unfolded k2]
    have run: "crash_run (r # rounds) s
                 = (process ?s2 # fst (crash_run rounds ?s2), snd (crash_run rounds ?s2))"
      using True r by (simp add: Let_def split_def)
    note ih1 = ih [THEN conjunct1]
    note ih2 = ih [THEN conjunct2, THEN conjunct1, rule_format]
    note ih3 = ih [THEN conjunct2, THEN conjunct2, rule_format]
    have len: "length (fst (crash_run (r # rounds) s)) = min (length (r # rounds)) ?k"
      unfolding run using ih1 k by (auto simp add: min_def)
    have stop: "status (snd (crash_run (r # rounds) s)) = CRASHED
                \<and> RespawnTimer \<notin> set (timers (snd (crash_run (r # rounds) s)))
                \<and> process (snd (crash_run (r # rounds) s)) = None"
      if "?k < length (r # rounds)"
    proof -
      have "?k - 1 < length rounds"
        using that k by auto
      then show ?thesis
        unfolding run using ih2 by simp
    qed
    have spawn: "None \<notin> set (fst (crash_run (r # rounds) s))
                 \<and> (r # rounds \<noteq> [] \<and> length (r # rounds) \<le> ?k
                      \<longrightarrow> status (snd (crash_run (r # rounds) s)) = STARTING
                          \<and> process (snd (crash_run (r # rounds) s)) \<noteq> None)"
      if l: "launchable s" and ok: "\<forall>r \<in> set (r # rounds). spawn_throws (fst r) = None"
    proof -
      have e: "spawn_throws e = None"
        using ok r by simp
      note up = round(3) [OF l e]
      have more: "\<forall>r \<in> set rounds. spawn_throws (fst r) = None"
        using ok by simp
      note tail = ih3 [OF conjI [OF up [THEN conjunct1] more]]
      have all: "None \<notin> set (fst (crash_run (r # rounds) s))"
        unfolding run using tail up by auto
      have last: "status (snd (crash_run (r # rounds) s)) = STARTING
                  \<and> process (snd (crash_run (r # rounds) s)) \<noteq> None"
        if "length (r # rounds) \<le> ?k"
      proof (cases rounds)
        case Nil
        then show ?thesis
          unfolding run using up by auto
      next
        case (Cons r' rs)
        then have "rounds \<noteq> [] \<and> length rounds \<le> ?k - 1"
          using that k by auto
        then show ?thesis
          unfolding run using tail by auto
      qed
      show ?thesis
        using all last by blast
    qed
    show ?thesis
      using len stop spawn by blast
  qed
qed

lemma selectServer_reads:
  assumes "map_of (disk s) (path_join (serversDir s) i) = Some n"
    and "map_of (disk s) (path_join (path_join (serversDir s) i) ''laplace.server.json'')
           = Some (t, File (JsonConfig c))"
  shows "selectServer i s = (Inr (), s\<lparr>config := Some c, serverDir := path_join (serversDir s) i\<rparr>)"
  using assms by (simp add: selectServer_def Let_def existsSync_def readFileSync_def)

text \<open>
  A manual start of an instance whose directory and descriptor are there, in the state
  OFFLINE or CRASHED: it is accepted, the descriptor is selected, the crash counter is 0
  and the stop-intent flag down; the timers pending stay pending.
\<close>

lemma loadAndStart_accepted:
  assumes "status s = OFFLINE \<or> status s = CRASHED"
    and "map_of (disk s) (path_join (serversDir s) i) = Some n"
    and "map_of (disk s) (path_join (path_join (serversDir s) i) ''laplace.server.json'')
           = Some (t, File (JsonConfig c))"
  shows "fst (loadAndStart e i actor s) = Inr ()"
    and "crashCount (snd (loadAndStart e i actor s)) = 0"
    and "timers (snd (loadAndStart e i actor s)) = timers s"
    and "config (snd (loadAndStart e i actor s)) = Some c"
    and "serverDir (snd (loadAndStart e i actor s)) = path_join (serversDir s) i"
    and "serversDir (snd (loadAndStart e i actor s)) = serversDir s"
    and "autoRestart c \<Longrightarrow> armed (snd (loadAndStart e i actor s))"
    and "basename q \<noteq> ''laplace.public.json'' \<Longrightarrow> basename q \<noteq> ''laplace.public.json.tmp''
           \<Longrightarrow> map_of (disk (snd (loadAndStart e i actor s))) q = map_of (disk s) q"
proof -
  let ?sel = "s\<lparr>config := Some c, serverDir := path_join (serversDir s) i\<rparr>"
  let ?s0 = "spawnProcess e
               (logSystem e (''[System] Start command received from user: '' @ actor)
                  (updateState e STARTING (?sel\<lparr>crashCount := 0, intentionToStop := False\<rparr>)))"
  have res: "loadAndStart e i actor s = (Inr (), ?s0)"
    using assms(1) by (auto simp add: loadAndStart_def selectServer_reads [OF assms(2,3)] Let_def)
  show "fst (loadAndStart e i actor s) = Inr ()"
    and "crashCount (snd (loadAndStart e i actor s)) = 0"
    and "timers (snd (loadAndStart e i actor s)) = timers s"
    and "config (snd (loadAndStart e i actor s)) = Some c"
    and "serverDir (snd (loadAndStart e i actor s)) = path_join (serversDir s) i"
    and "serversDir (snd (loadAndStart e i actor s)) = serversDir s"
    by (simp_all add: res)
  have "status ?s0 \<noteq> RESTARTING"
    by (rule spawnProcess_not_restarting) simp
  then show "armed (snd (loadAndStart e i actor s))" if "autoRestart c"
    using that by (simp add: res armed_def)
  show "map_of (disk (snd (loadAndStart e i actor s))) q = map_of (disk s) q"
    if "basename q \<noteq> ''laplace.public.json''" and "basename q \<noteq> ''laplace.public.json.tmp''"
    by (simp add: res spawnProcess_other [OF that] updateState_other [OF that])
qed

lemma loadAndStart_started:
  assumes "loadAndStart e serverId actor s = (Inr (), s0)"
  shows "crashCount s0 = 0" and "\<not> intentionToStop s0" and "status s0 \<noteq> RESTARTING"
    and "timers s0 = timers s" and "config s0 \<noteq> None"
proof -
  have ok: "status s = OFFLINE \<or> status s = CRASHED"
    using assms by (auto simp add: loadAndStart_def split: if_splits)
  obtain r s1 where sel: "selectServer serverId s = (r, s1)"
    by (cases "selectServer serverId s")
  have r: "r = Inr ()"
    using assms ok sel by (auto simp add: loadAndStart_def split: sum.splits)
  have s1: "timers s1 = timers s" "config s1 \<noteq> None"
    using sel r by (auto simp add: selectServer_def Let_def split: if_splits option.splits fdata.splits)
  have s0: "s0 = spawnProcess e
                   (logSystem e (''[System] Start command received from user: '' @ actor)
                      (updateState e STARTING (s1\<lparr>crashCount := 0, intentionToStop := False\<rparr>)))"
    using assms ok sel r by (auto simp add: loadAndStart_def Let_def)
  show "crashCount s0 = 0" "\<not> intentionToStop s0" "timers s0 = timers s" "config s0 \<noteq> None"
    using s1 by (simp_all add: s0)
  show "status s0 \<noteq> RESTARTING"
    by (simp add: s0 spawnProcess_not_restarting)
qed

text \<open>
  What the claim says holds when no respawn is pending at the manual start: the start
  leaves the counter at 0, whatever it was, and four unintended exits in a row are then
  followed by exactly three respawns; the fourth leaves the state CRASHED, with no child
  and no respawn scheduled.
\<close>

lemma crash_budget_nothing_pending:
  assumes "loadAndStart e0 serverId actor s = (Inr (), s0)"
    and "RespawnTimer \<notin> set (timers s)"
    and "case config s0 of Some c \<Rightarrow> autoRestart c | None \<Rightarrow> True"
    and "length rounds = 4"
    and "\<forall>r \<in> set rounds. unintended (snd (snd r))"
  shows "crashCount s0 = 0
         \<and> length (fst (crash_run rounds s0)) = 3
         \<and> status (snd (crash_run rounds s0)) = CRASHED
         \<and> RespawnTimer \<notin> set (timers (snd (crash_run rounds s0)))
         \<and> process (snd (crash_run rounds s0)) = None"
proof -
  note st = loadAndStart_started [OF assms(1)]
  have a: "armed s0"
    using st assms(3) by (simp add: armed_def)
  have idle: "count_list (timers s0) RespawnTimer = 0"
    using st(4) assms(2) by simp
  show ?thesis
    using crash_run_respawns [OF a assms(5)] st(1) idle assms(4) by simp
qed

lemma ex_alpha_paths:
  "path_join ''/data/servers'' ''alpha'' = ''/data/servers/alpha''"
  "path_join ''/data/servers/alpha'' ''laplace.server.json'' = ''/data/servers/alpha/laplace.server.json''"
  "path_join ''/data/servers/alpha'' ''server.jar'' = ''/data/servers/alpha/server.jar''"
  by (simp_all add: path_eval)

lemma ex_alpha_names:
  "basename ''/data/servers/alpha'' = ''alpha''"
  "basename ''/data/servers/alpha/laplace.server.json'' = ''laplace.server.json''"
  "basename ''/data/servers/alpha/server.jar'' = ''server.jar''"
  using path_join_basename [of "''alpha''" "''/data/servers''"]
    path_join_basename [of "''laplace.server.json''" "''/data/servers/alpha''"]
    path_join_basename [of "''server.jar''" "''/data/servers/alpha''"]
  unfolding ex_alpha_paths by (simp_all add: plain_name_def)

text \<open>
  The states of the sample run: \<open>alpha\<close> started by hand, crashed once, and started by
  hand again while the respawn of that crash is pending.
\<close>

lemma ex_crashed_fields:
  "status ex_crashed = CRASHED" "timers ex_crashed = [RespawnTimer]" "crashCount ex_crashed = 1"
  "serversDir ex_crashed = ''/data/servers''"
  "map_of (disk ex_crashed) ''/data/servers/alpha'' = Some (5, Dir)"
  "map_of (disk ex_crashed) ''/data/servers/alpha/laplace.server.json''
     = Some (5, File (JsonConfig (ex_config ''alpha'')))"
  "map_of (disk ex_crashed) ''/data/servers/alpha/server.jar'' = Some (5, File (Text ''jar''))"
proof -
  let ?started = "snd (loadAndStart ex_env ''alpha'' ''admin'' ex_offline)"
  have off: "status ex_offline = OFFLINE \<or> status ex_offline = CRASHED"
      "serversDir ex_offline = ''/data/servers''" "timers ex_offline = []"
    by (simp_all add: ex_eval)
  have dir: "map_of (disk ex_offline) (path_join (serversDir ex_offline) ''alpha'') = Some (5, Dir)"
    unfolding off(2) ex_alpha_paths by (simp add: ex_eval)
  have desc: "map_of (disk ex_offline)
                (path_join (path_join (serversDir ex_offline) ''alpha'') ''laplace.server.json'')
              = Some (5, File (JsonConfig (ex_config ''alpha'')))"
    unfolding off(2) ex_alpha_paths by (simp add: ex_eval)
  have jar: "map_of (disk ex_offline) ''/data/servers/alpha/server.jar'' = Some (5, File (Text ''jar''))"
    by (simp add: ex_eval)
  note start = loadAndStart_accepted [OF off(1) dir desc, where e = ex_env and actor = "''admin''"]
  have a: "armed ?started"
    by (rule start(7)) (simp add: ex_config_def)
  have u: "unintended (Some 1)"
    by (simp add: unintended_def)
  note close = on_close_crash [OF a u, of ex_env]
  show "status ex_crashed = CRASHED"
    using close(2) by (simp add: ex_crashed_def)
  show "timers ex_crashed = [RespawnTimer]"
    using close(5) start(2,3) off(3) by (simp add: ex_crashed_def)
  show "crashCount ex_crashed = 1"
    using close(1) start(2) by (simp add: ex_crashed_def)
  show "serversDir ex_crashed = ''/data/servers''"
    using start(6) off(2) by (simp add: ex_crashed_def)
  have kept: "map_of (disk ex_crashed) q = map_of (disk ex_offline) q"
    if "basename q \<noteq> ''laplace.public.json''" and "basename q \<noteq> ''laplace.public.json.tmp''" for q
    unfolding ex_crashed_def by (simp add: on_close_other [OF that] start(8) [OF that])
  show "map_of (disk ex_crashed) ''/data/servers/alpha'' = Some (5, Dir)"
    using kept [of "''/data/servers/alpha''"] dir
    unfolding off(2) ex_alpha_paths by (simp add: ex_alpha_names)
  show "map_of (disk ex_crashed) ''/data/servers/alpha/laplace.server.json''
          = Some (5, File (JsonConfig (ex_config ''alpha'')))"
    using kept [of "''/data/servers/alpha/laplace.server.json''"] desc
    unfolding off(2) ex_alpha_paths by (simp add: ex_alpha_names)
  show "map_of (disk ex_crashed) ''/data/servers/alpha/server.jar'' = Some (5, File (Text ''jar''))"
    using kept [of "''/data/servers/alpha/server.jar''"] jar by (simp add: ex_alpha_names)
qed

text \<open>
  C2, on the code. The instance \<open>alpha\<close> is started by hand and crashes: the state is
  CRASHED and a respawn is due. A second manual start is given before the timer fires.
  It is accepted, since the state is CRASHED, and it resets the crash counter to 0; but
  the pending respawn is not cancelled. Four unintended exits in a row are then followed
  by four automatic respawns, each leaving a child running, not by three: after the
  fourth exit a respawn is still scheduled, and the run ends in STARTING with a child,
  not in CRASHED.
\<close>

theorem manual_start_with_respawn_pending:
  "status ex_crashed = CRASHED
   \<and> crashCount ex_crashed = 1
   \<and> timers ex_crashed = [RespawnTimer]
   \<and> fst (loadAndStart ex_env ''alpha'' ''admin'' ex_crashed) = Inr ()
   \<and> crashCount ex_restarted = 0
   \<and> timers ex_restarted = [RespawnTimer]
   \<and> length (fst (crash_run (replicate 4 (ex_env, [], Some 1)) ex_restarted)) = 4
   \<and> None \<notin> set (fst (crash_run (replicate 4 (ex_env, [], Some 1)) ex_restarted))
   \<and> status (snd (crash_run (replicate 4 (ex_env, [], Some 1)) ex_restarted)) = STARTING
   \<and> process (snd (crash_run (replicate 4 (ex_env, [], Some 1)) ex_restarted)) \<noteq> None"
proof -
  note crashed = ex_crashed_fields
  have ok: "status ex_crashed = OFFLINE \<or> status ex_crashed = CRASHED"
    by (simp add: crashed(1))
  have dir: "map_of (disk ex_crashed) (path_join (serversDir ex_crashed) ''alpha'') = Some (5, Dir)"
    unfolding crashed(4) ex_alpha_paths by (rule crashed(5))
  have desc: "map_of (disk ex_crashed)
                (path_join (path_join (serversDir ex_crashed) ''alpha'') ''laplace.server.json'')
              = Some (5, File (JsonConfig (ex_config ''alpha'')))"
    unfolding crashed(4) ex_alpha_paths by (rule crashed(6))
  note start = loadAndStart_accepted [OF ok dir desc, where e = ex_env and actor = "''admin''",
      folded ex_restarted_def]
  have a: "armed ex_restarted"
    by (rule start(7)) (simp add: ex_config_def)
  have jar: "map_of (disk ex_restarted) ''/data/servers/alpha/server.jar'' = Some (5, File (Text ''jar''))"
    using start(8) [of "''/data/servers/alpha/server.jar''"] crashed(7) by (simp add: ex_alpha_names)
  have sd: "serverDir ex_restarted = ''/data/servers/alpha''"
    using start(5) unfolding crashed(4) ex_alpha_paths .
  have l: "launchable ex_restarted"
    unfolding launchable_def start(4) sd
    by (simp add: ex_config_def ex_alpha_paths ex_alpha_names existsSync_def jar)
  have codes: "\<forall>r \<in> set (replicate 4 (ex_env, [], Some (1::int))). unintended (snd (snd r))"
    by (simp add: unintended_def)
  have spawns: "\<forall>r \<in> set (replicate 4 (ex_env, ([]::string list), Some (1::int))). spawn_throws (fst r) = None"
    by (simp add: ex_env_def)
  have pending: "3 - crashCount ex_restarted + count_list (timers ex_restarted) RespawnTimer = 4"
    using start(2,3) crashed(2) by simp
  note run = crash_run_respawns [OF a codes, unfolded pending]
  have four: "length (fst (crash_run (replicate 4 (ex_env, [], Some 1)) ex_restarted)) = 4"
    using run [THEN conjunct1] by simp
  have children: "None \<notin> set (fst (crash_run (replicate 4 (ex_env, [], Some 1)) ex_restarted))
                  \<and> status (snd (crash_run (replicate 4 (ex_env, [], Some 1)) ex_restarted)) = STARTING
                  \<and> process (snd (crash_run (replicate 4 (ex_env, [], Some 1)) ex_restarted)) \<noteq> None"
    using run [THEN conjunct2, THEN conjunct2, rule_format, OF conjI [OF l spawns]] by simp
  show ?thesis
    using crashed(1,2,3) start(1,2,3) four children by simp
qed

section \<open>The roster without a live query\<close>

lemma readJsonSafe_cong:
  assumes "serverDir s' = serverDir s"
    and "map_of (disk s') (path_join (serverDir s) f) = map_of (disk s) (path_join (serverDir s) f)"
  shows "readJsonSafe s' f = readJsonSafe s f"
  using assms by (simp add: readJsonSafe_def existsSync_def readFileSync_def Let_def)

lemma getLaplaceMeta_cong:
  assumes "serverDir s' = serverDir s"
    and "map_of (disk s') (path_join (serverDir s) ''laplace.players.json'')
           = map_of (disk s) (path_join (serverDir s) ''laplace.players.json'')"
  shows "getLaplaceMeta s' = getLaplaceMeta s"
  using assms by (simp add: getLaplaceMeta_def existsSync_def readFileSync_def Let_def)

lemma flag_all_cong:
  assumes "users s' = users s"
  shows "flag_all s' lm f es pm = flag_all s lm f es pm"
proof -
  have "getOrInit s' lm = getOrInit s lm"
    using assms by (simp add: getOrInit_def fun_eq_iff)
  then show ?thesis
    by (simp add: flag_all_def)
qed

text \<open>The static part of the roster is a function of the five source files and the users.\<close>

lemma static_roster_cong:
  assumes "serverDir s' = serverDir s" and "users s' = users s"
    and "\<forall>f \<in> set roster_files.
           map_of (disk s') (path_join (serverDir s) f) = map_of (disk s) (path_join (serverDir s) f)"
  shows "static_roster s' = static_roster s"
proof -
  have at: "map_of (disk s') (path_join (serverDir s) f) = map_of (disk s) (path_join (serverDir s) f)"
    if "f \<in> set roster_files" for f
    using assms(3) that by blast
  have uc: "readJsonSafe s' ''usercache.json'' = readJsonSafe s ''usercache.json''"
    by (rule readJsonSafe_cong [OF assms(1) at]) (simp add: roster_files_def)
  have ops: "readJsonSafe s' ''ops.json'' = readJsonSafe s ''ops.json''"
    by (rule readJsonSafe_cong [OF assms(1) at]) (simp add: roster_files_def)
  have banned: "readJsonSafe s' ''banned-players.json'' = readJsonSafe s ''banned-players.json''"
    by (rule readJsonSafe_cong [OF assms(1) at]) (simp add: roster_files_def)
  have wl: "readJsonSafe s' ''whitelist.json'' = readJsonSafe s ''whitelist.json''"
    by (rule readJsonSafe_cong [OF assms(1) at]) (simp add: roster_files_def)
  have lm: "getLaplaceMeta s' = getLaplaceMeta s"
    by (rule getLaplaceMeta_cong [OF assms(1) at]) (simp add: roster_files_def)
  show ?thesis
    unfolding static_roster_def uc ops banned wl lm flag_all_cong [OF assms(2)] ..
qed

lemma map_entry_pred:
  "\<forall>kv \<in> set xs. P (snd kv) \<Longrightarrow> (\<And>p. P p \<Longrightarrow> P (f p)) \<Longrightarrow>
   \<forall>kv \<in> set (AList.map_entry k f xs). P (snd kv)"
  by (induction xs) auto

lemma flag_all_pred:
  assumes "\<forall>kv \<in> set pm. \<not> isOnline (snd kv) \<and> lastLogin (snd kv) = 0"
    and "\<And>p. isOnline (f p) = isOnline p \<and> lastLogin (f p) = lastLogin p"
  shows "\<forall>kv \<in> set (flag_all s lm f es pm). \<not> isOnline (snd kv) \<and> lastLogin (snd kv) = 0"
  using assms(1) unfolding flag_all_def
proof (induction es arbitrary: pm)
  case Nil
  then show ?case by simp
next
  case (Cons x es)
  have init: "\<forall>kv \<in> set (getOrInit s lm (fst x) (snd x) pm).
                \<not> isOnline (snd kv) \<and> lastLogin (snd kv) = 0"
    using Cons.prems by (simp add: getOrInit_def Let_def)
  have step: "\<forall>kv \<in> set (AList.map_entry (fst x) f (getOrInit s lm (fst x) (snd x) pm)).
          \<not> isOnline (snd kv) \<and> lastLogin (snd kv) = 0"
    by (rule map_entry_pred [OF init]) (simp add: assms(2))
  show ?case
    using Cons.IH [OF step] by simp
qed

lemma static_roster_offline:
  assumes "static_roster s = Inr pm"
  shows "\<forall>kv \<in> set pm. \<not> isOnline (snd kv) \<and> lastLogin (snd kv) = 0"
proof -
  obtain uc ops banned wl where
    pm: "pm = flag_all s (getLaplaceMeta s) (\<lambda>p. p\<lparr>isWhitelisted := True\<rparr>) wl
               (flag_all s (getLaplaceMeta s) (\<lambda>p. p\<lparr>isBanned := True\<rparr>) banned
                 (flag_all s (getLaplaceMeta s) (\<lambda>p. p\<lparr>isOp := True\<rparr>) ops
                   (flag_all s (getLaplaceMeta s) (\<lambda>p. p\<lparr>psource := cache\<rparr>) uc [])))"
    using assms by (auto simp add: static_roster_def Let_def split: sum.splits)
  let ?lm = "getLaplaceMeta s"
  let ?a = "flag_all s ?lm (\<lambda>p. p\<lparr>psource := cache\<rparr>) uc []"
  let ?b = "flag_all s ?lm (\<lambda>p. p\<lparr>isOp := True\<rparr>) ops ?a"
  let ?c = "flag_all s ?lm (\<lambda>p. p\<lparr>isBanned := True\<rparr>) banned ?b"
  have none: "\<forall>kv \<in> set ([] :: player_map). \<not> isOnline (snd kv) \<and> lastLogin (snd kv) = 0"
    by simp
  have a: "\<forall>kv \<in> set ?a. \<not> isOnline (snd kv) \<and> lastLogin (snd kv) = 0"
    by (rule flag_all_pred [OF none]) simp
  have b: "\<forall>kv \<in> set ?b. \<not> isOnline (snd kv) \<and> lastLogin (snd kv) = 0"
    by (rule flag_all_pred [OF a]) simp
  have c: "\<forall>kv \<in> set ?c. \<not> isOnline (snd kv) \<and> lastLogin (snd kv) = 0"
    by (rule flag_all_pred [OF b]) simp
  show ?thesis
    unfolding pm by (rule flag_all_pred [OF c]) simp
qed

lemma sort_by_equal_keys:
  "\<forall>x \<in> set xs. \<forall>y \<in> set xs. cmp x y \<le> 0 \<Longrightarrow> sort_by cmp xs = xs"
proof (induction xs)
  case Nil
  then show ?case by (simp add: sort_by_def)
next
  case (Cons x xs)
  then have "sort_by cmp xs = xs" by simp
  then have "sort_by cmp (x # xs) = insert_by cmp x xs"
    by (simp add: sort_by_def)
  then show ?case
    using Cons.prems by (cases xs) simp_all
qed

text \<open>
  Without a live query the list returned is the static roster in the order of first
  appearance: the comparator finds all records equal.
\<close>

lemma getPlayers_static:
  assumes "status s \<noteq> ONLINE \<or> rcon s = None"
  shows "getPlayers e live s =
           (if serverDir s = [] then (Inr [], s)
            else (case static_roster s of
                    Inl err \<Rightarrow> (Inl err, s)
                  | Inr pm \<Rightarrow> (Inr (map snd pm), updatePublicFile e (s\<lparr>onlinePlayers := []\<rparr>))))"
proof (cases "static_roster s")
  case (Inl err)
  then show ?thesis by (simp add: getPlayers_def)
next
  case (Inr pm)
  have "\<forall>p \<in> set (map snd pm). \<forall>q \<in> set (map snd pm). player_cmp p q \<le> 0"
    using static_roster_offline [OF Inr] by (auto simp add: player_cmp_def)
  then have "sort_by player_cmp (map snd pm) = map snd pm"
    by (rule sort_by_equal_keys)
  then show ?thesis
    using assms Inr by (auto simp add: getPlayers_def Let_def)
qed

lemma roster_file_kept:
  assumes "f \<in> set roster_files"
  shows "map_of (disk (updatePublicFile e s)) (path_join d f) = map_of (disk s) (path_join d f)"
proof -
  have "plain_name f" "f \<noteq> ''laplace.public.json''" "f \<noteq> ''laplace.public.json.tmp''"
    using assms by (auto simp add: roster_files_def)
  then show ?thesis
    by (intro updatePublicFile_other) (simp_all add: path_join_basename)
qed

text \<open>
  C9. When no live query runs (the state is not ONLINE, or there is no session), a
  second \<open>getPlayers\<close> right after a first returns the same result, whatever the clock
  and the environment of either call: the only file the first call writes is the status
  snapshot, which is none of the source files. When the result is a list, every record
  in it is offline with last-seen 0, and the list is the static roster in its order of
  first appearance.
\<close>

theorem getPlayers_deterministic:
  assumes "status s \<noteq> ONLINE \<or> rcon s = None"
  shows "fst (getPlayers e2 live2 (snd (getPlayers e1 live1 s))) = fst (getPlayers e1 live1 s)
         \<and> (\<forall>ps. fst (getPlayers e1 live1 s) = Inr ps
               \<longrightarrow> (\<forall>p \<in> set ps. \<not> isOnline p \<and> lastLogin p = 0))"
proof (cases "serverDir s = []")
  case True
  then show ?thesis by (simp add: getPlayers_def)
next
  case False
  show ?thesis
  proof (cases "static_roster s")
    case (Inl err)
    then show ?thesis
      using False assms by (simp add: getPlayers_static)
  next
    case (Inr pm)
    let ?s1 = "updatePublicFile e1 (s\<lparr>onlinePlayers := []\<rparr>)"
    have first: "getPlayers e1 live1 s = (Inr (map snd pm), ?s1)"
      using False assms Inr by (simp add: getPlayers_static)
    have quiet: "status ?s1 \<noteq> ONLINE \<or> rcon ?s1 = None"
      using assms by simp
    have same: "static_roster ?s1 = static_roster s"
    proof (rule static_roster_cong)
      show "serverDir ?s1 = serverDir s" by simp
      show "users ?s1 = users s" by simp
      show "\<forall>f \<in> set roster_files.
              map_of (disk ?s1) (path_join (serverDir s) f) = map_of (disk s) (path_join (serverDir s) f)"
        by (simp add: roster_file_kept)
    qed
    have second: "fst (getPlayers e2 live2 ?s1) = Inr (map snd pm)"
      using False Inr same by (simp add: getPlayers_static [OF quiet])
    show ?thesis
      using first second static_roster_offline [OF Inr] by auto
  qed
qed

theorem getPlayers_deterministic_witness:
  "status ex_offline = OFFLINE
   \<and> fst (getPlayers (ex_env\<lparr>now_ms := 2000\<rparr>) (Reply ''There are 0 players online:'')
           (snd (getPlayers ex_env (Rejected ''busy'') ex_offline)))
       = fst (getPlayers ex_env (Rejected ''busy'') ex_offline)
   \<and> map (\<lambda>p. (uuid p, pname p, isOnline p, isOp p, isBanned p, isWhitelisted p))
         (projr (fst (getPlayers ex_env (Rejected ''busy'') ex_offline)))
       = [(''u-1'', ''Steve'', False, False, False, False),
          (''u-2'', ''Alex'', False, True, False, False)]"
proof -
  have offline: "status ex_offline = OFFLINE"
    by (simp add: ex_eval)
  then have quiet: "status ex_offline \<noteq> ONLINE \<or> rcon ex_offline = None"
    by simp
  have dir: "serverDir ex_offline = ''/data/servers/alpha''" and nobody: "users ex_offline = []"
    by (simp_all add: ex_eval)
  have paths: "path_join ''/data/servers/alpha'' ''usercache.json'' = ''/data/servers/alpha/usercache.json''"
      "path_join ''/data/servers/alpha'' ''ops.json'' = ''/data/servers/alpha/ops.json''"
      "path_join ''/data/servers/alpha'' ''banned-players.json'' = ''/data/servers/alpha/banned-players.json''"
      "path_join ''/data/servers/alpha'' ''whitelist.json'' = ''/data/servers/alpha/whitelist.json''"
      "path_join ''/data/servers/alpha'' ''laplace.players.json'' = ''/data/servers/alpha/laplace.players.json''"
    by (simp_all add: path_eval)
  have files: "readJsonSafe ex_offline ''usercache.json'' = JsonEntries [(''u-1'', ''Steve''), (''u-2'', ''Alex'')]"
      "readJsonSafe ex_offline ''ops.json'' = JsonEntries [(''u-2'', ''Alex'')]"
      "readJsonSafe ex_offline ''banned-players.json'' = JsonEntries []"
      "readJsonSafe ex_offline ''whitelist.json'' = JsonEntries []"
      "getLaplaceMeta ex_offline = []"
    unfolding readJsonSafe_def getLaplaceMeta_def dir paths Let_def
    by (simp_all add: ex_eval existsSync_def readFileSync_def)
  have roster: "map (\<lambda>p. (uuid p, pname p, isOnline p, isOp p, isBanned p, isWhitelisted p))
                  (map snd (projr (static_roster ex_offline)))
                = [(''u-1'', ''Steve'', False, False, False, False),
                   (''u-2'', ''Alex'', False, True, False, False)]"
    and list: "static_roster ex_offline = Inr (projr (static_roster ex_offline))"
    unfolding static_roster_def files Let_def
    by (simp_all add: flag_all_def getOrInit_def nobody)
  obtain pm where pm: "static_roster ex_offline = Inr pm"
    using list ..
  have first: "fst (getPlayers ex_env (Rejected ''busy'') ex_offline)
                 = Inr (map snd (projr (static_roster ex_offline)))"
    by (simp add: getPlayers_static [OF quiet] dir pm)
  show ?thesis
    using getPlayers_deterministic [OF quiet, of "ex_env\<lparr>now_ms := 2000\<rparr>"
        "Reply ''There are 0 players online:''" ex_env "Rejected ''busy''"]
      first roster offline
    by simp
qed

section \<open>Creating instances\<close>

lemma createServer_returns_slug:
  "fst (createServer e params s) = Inr sid \<Longrightarrow> sid = serverId_of (sc_name params)"
  by (auto simp add: createServer_def Let_def split: if_splits prod.splits sum.splits)

lemma createServer_same_id:
  assumes "existsSync (disk s) (sourceJarPath params)"
    and "existsSync (disk s) (path_join (serversDir s) (serverId_of (sc_name params)))"
  shows "createServer e params s = (Inl (ServerIdExists (serverId_of (sc_name params))), s)"
  using assms by (simp add: createServer_def Let_def)

lemma my_test_id: "serverId_of ''My Test!'' = ''my-test-''"
  by (simp add: serverId_of.simps continuation_byte_def toLowerCase_def startsWith_def)

text \<open>
  On an ASCII name the identifier is the name in lower case with every character
  outside \<open>[a-z0-9]\<close> replaced; outside ASCII a character gives one \<open>-\<close> for each of its
  UTF-16 units: one for U+00E9, two for U+1F600.
\<close>

lemma toLowerCase_Cons: "toLowerCase (c # cs) = hd (toLowerCase [c]) # toLowerCase cs"
  unfolding toLowerCase_def by (simp only: list.map list.sel)

lemma serverId_of_plain:
  assumes "(of_char c :: nat) < 128"
  shows "serverId_of (c # cs) =
           (if hd (toLowerCase [c]) \<in> set ''abcdefghijklmnopqrstuvwxyz0123456789''
            then hd (toLowerCase [c]) else CHR ''-'') # serverId_of cs"
proof -
  have "\<not> continuation_byte c" "c \<noteq> CHR 0xC4" "c \<noteq> CHR 0xE2" "\<not> 240 \<le> (of_char c :: nat)"
    using assms by (auto simp add: continuation_byte_def)
  then show ?thesis
    by (simp only: serverId_of.simps if_False simp_thms)
qed

lemma serverId_of_ascii:
  "\<forall>c \<in> set nm. (of_char c :: nat) < 128 \<Longrightarrow>
   serverId_of nm =
     map (\<lambda>c. if c \<in> set ''abcdefghijklmnopqrstuvwxyz0123456789'' then c else CHR ''-'')
       (toLowerCase nm)"
proof (induction nm)
  case Nil
  then show ?case by (simp add: toLowerCase_def serverId_of.simps)
next
  case (Cons c nm)
  have small: "(of_char c :: nat) < 128"
    using Cons.prems by simp
  have ih: "serverId_of nm =
          map (\<lambda>c. if c \<in> set ''abcdefghijklmnopqrstuvwxyz0123456789'' then c else CHR ''-'')
            (toLowerCase nm)"
    using Cons by simp
  show ?case
    unfolding serverId_of_plain [OF small] toLowerCase_Cons [of c nm] ih
    by (simp only: list.map)
qed

lemma serverId_of_accented:
  "serverId_of [CHR ''C'', CHR ''a'', CHR ''f'', CHR 0xC3, CHR 0xA9] = ''caf-''"
  "serverId_of [CHR ''a'', CHR 0xF0, CHR 0x9F, CHR 0x98, CHR 0x80] = ''a--''"
  "serverId_of [CHR 0xC4, CHR 0xB0, CHR 0xE2, CHR 0x84, CHR 0xAA] = ''i-k''"
  by (simp_all add: serverId_of.simps continuation_byte_def toLowerCase_def startsWith_def)

lemma update_fresh: "map_of al k = None \<Longrightarrow> AList.update k v al = al @ [(k, v)]"
  by (induction al) auto

lemma delete_fresh: "map_of al k = None \<Longrightarrow> AList.delete k al = al"
  by (induction al) auto

lemma delete_snoc: "map_of al k = None \<Longrightarrow> AList.delete k (al @ [(k, v)]) = al"
  by (induction al) auto

lemma snoc_None: "map_of al q = None \<Longrightarrow> q \<noteq> k \<Longrightarrow> map_of (al @ [(k, v)]) q = None"
  by (induction al) auto

lemma snoc_Some: "map_of al q = Some x \<Longrightarrow> map_of (al @ [(k, v)]) q = Some x"
  by (induction al) auto

lemma snoc_at: "map_of al k = None \<Longrightarrow> map_of (al @ [(k, v)]) k = Some v"
  by (induction al) auto

lemma write_fresh:
  "map_of al k = None \<Longrightarrow> writeFileSync now al k c = al @ [(k, now, File c)]"
  by (simp add: writeFileSync_def update_fresh)

text \<open>
  When no file-system call fails, the uploaded jar is a file and none of the paths of
  the new instance is taken, \<open>createServer\<close> returns the identifier and adds the
  instance directory with its four files (the EULA being accepted) at the end of the
  disk. The paths are named by hypotheses, so that they need not be computed here.
\<close>

lemma createServer_succeeds:
  assumes ok: "\<And>p. \<not> io_fails e p"
    and sid: "serverId_of (sc_name params) = sid"
    and sp: "path_join (serversDir s) sid = sp"
    and jar: "path_join sp ''server.jar'' = jar"
    and eula: "path_join sp ''eula.txt'' = eula"
    and props: "path_join sp ''server.properties'' = props"
    and desc: "path_join sp ''laplace.server.json'' = desc"
    and src: "readFileSync (disk s) (sourceJarPath params) = Some content"
    and fresh: "map_of (disk s) sp = None" "map_of (disk s) jar = None" "map_of (disk s) eula = None"
      "map_of (disk s) props = None" "map_of (disk s) desc = None"
      "map_of (disk s) (desc @ ''.tmp'') = None"
    and apart: "distinct [sp, jar, eula, props, desc, desc @ ''.tmp'']"
    and accepted: "eulaAccepted params"
  shows "fst (createServer e params s) = Inr sid"
    and "serversDir (snd (createServer e params s)) = serversDir s"
    and "disk (snd (createServer e params s)) =
           disk s @
           [(sp, now_ms e, Dir),
            (jar, now_ms e, File content),
            (eula, now_ms e, File (Text ''eula=true'')),
            (props, now_ms e, File (Text (properties_text params (rand_hex e)))),
            (desc, now_ms e,
               File (JsonConfig
                 \<lparr>cfg_id = sid, cfg_name = sc_name params, jarFile = ''server.jar'',
                  javaArgs = \<lparr>xmx = (if sc_xmx params = [] then ''4G'' else sc_xmx params),
                               xms = (if sc_xms params = [] then ''1G'' else sc_xms params),
                               args = []\<rparr>,
                  rconPort = 25575, rconPassword = Some (rand_hex e),
                  autoRestart = True, created = now_ms e\<rparr>))]"
proof -
  let ?cfg = "\<lparr>cfg_id = sid, cfg_name = sc_name params, jarFile = ''server.jar'',
                javaArgs = \<lparr>xmx = (if sc_xmx params = [] then ''4G'' else sc_xmx params),
                             xms = (if sc_xms params = [] then ''1G'' else sc_xms params),
                             args = []\<rparr>,
                rconPort = 25575, rconPassword = Some (rand_hex e),
                autoRestart = True, created = now_ms e\<rparr>"
  let ?text = "properties_text params (rand_hex e)"
  let ?now = "now_ms e"
  let ?A = "disk s"
  let ?B = "?A @ [(sp, ?now, Dir)]"
  let ?C = "?B @ [(jar, ?now, File content)]"
  let ?D = "?C @ [(eula, ?now, File (Text ''eula=true''))]"
  let ?E = "?D @ [(props, ?now, File (Text ?text))]"
  let ?F = "?E @ [(desc, ?now, File (JsonConfig ?cfg))]"
  from src have there: "existsSync (disk s) (sourceJarPath params)"
    by (auto simp add: existsSync_def readFileSync_def split: option.splits)
  have ne: "jar \<noteq> sp" "eula \<noteq> sp" "props \<noteq> sp" "desc \<noteq> sp" "desc @ ''.tmp'' \<noteq> sp"
      "eula \<noteq> jar" "props \<noteq> jar" "desc \<noteq> jar" "desc @ ''.tmp'' \<noteq> jar"
      "props \<noteq> eula" "desc \<noteq> eula" "desc @ ''.tmp'' \<noteq> eula"
      "desc \<noteq> props" "desc @ ''.tmp'' \<noteq> props"
    using apart by auto
  have m1: "mkdirSync ?now ?A sp = ?B"
    using fresh by (simp add: mkdirSync_def existsSync_def update_fresh)
  have fB: "map_of ?B jar = None" "map_of ?B eula = None" "map_of ?B props = None"
      "map_of ?B desc = None" "map_of ?B (desc @ ''.tmp'') = None"
    by (rule snoc_None [OF fresh(2) ne(1)] snoc_None [OF fresh(3) ne(2)] snoc_None [OF fresh(4) ne(3)] snoc_None [OF fresh(5) ne(4)] snoc_None [OF fresh(6) ne(5)])+
  have c2: "readFileSync ?B (sourceJarPath params) = Some content"
  proof -
    obtain t where "map_of ?A (sourceJarPath params) = Some (t, File content)"
      using src by (auto simp add: readFileSync_def split: option.splits prod.splits kind.splits)
    then have "map_of ?B (sourceJarPath params) = Some (t, File content)"
      by (rule snoc_Some)
    then show ?thesis
      unfolding readFileSync_def by (simp only: option.case prod.case kind.case)
  qed
  have c3: "copyFileSync ?now ?B (sourceJarPath params) jar = ?C"
    unfolding copyFileSync_def c2 by (simp only: option.case write_fresh [OF fB(1)])
  have fC: "map_of ?C eula = None" "map_of ?C props = None" "map_of ?C desc = None"
      "map_of ?C (desc @ ''.tmp'') = None"
    by (rule snoc_None [OF fB(2) ne(6)] snoc_None [OF fB(3) ne(7)] snoc_None [OF fB(4) ne(8)] snoc_None [OF fB(5) ne(9)])+
  have w3: "writeFileSync ?now ?C eula (Text ''eula=true'') = ?D"
    by (rule write_fresh [OF fC(1)])
  have fD: "map_of ?D props = None" "map_of ?D desc = None" "map_of ?D (desc @ ''.tmp'') = None"
    by (rule snoc_None [OF fC(2) ne(10)] snoc_None [OF fC(3) ne(11)] snoc_None [OF fC(4) ne(12)])+
  have w4: "writeFileSync ?now ?D props (Text ?text) = ?E"
    by (rule write_fresh [OF fD(1)])
  have fE: "map_of ?E desc = None" "map_of ?E (desc @ ''.tmp'') = None"
    by (rule snoc_None [OF fD(2) ne(13)] snoc_None [OF fD(3) ne(14)])+
  have t5: "writeFileSync ?now ?E (desc @ ''.tmp'') (JsonConfig ?cfg)
              = ?E @ [(desc @ ''.tmp'', ?now, File (JsonConfig ?cfg))]"
    by (rule write_fresh [OF fE(2)])
  have r5: "renameSync (?E @ [(desc @ ''.tmp'', ?now, File (JsonConfig ?cfg))]) (desc @ ''.tmp'') desc = ?F"
  proof -
    have at: "map_of (?E @ [(desc @ ''.tmp'', ?now, File (JsonConfig ?cfg))]) (desc @ ''.tmp'')
                = Some (?now, File (JsonConfig ?cfg))"
      by (rule snoc_at [OF fE(2)])
    have del: "AList.delete (desc @ ''.tmp'') (?E @ [(desc @ ''.tmp'', ?now, File (JsonConfig ?cfg))]) = ?E"
      by (rule delete_snoc [OF fE(2)])
    show ?thesis
      unfolding renameSync_def at del by (simp only: option.case update_fresh [OF fE(1)])
  qed
  have w5: "writeJsonAtomic e desc (JsonConfig ?cfg) ?E = (Inr (), ?F)"
    unfolding writeJsonAtomic_def Let_def t5 r5 by (simp add: ok)
  have inF: "map_of ?F sp = Some (?now, Dir)" "map_of ?F desc = Some (?now, File (JsonConfig ?cfg))"
  proof -
    have "map_of ?B sp = Some (?now, Dir)"
      by (rule snoc_at [OF fresh(1)])
    then show "map_of ?F sp = Some (?now, Dir)"
      by (rule snoc_Some [OF snoc_Some [OF snoc_Some [OF snoc_Some]]])
    show "map_of ?F desc = Some (?now, File (JsonConfig ?cfg))"
      by (rule snoc_at [OF fE(1)])
  qed
  have sel: "selectServer sid st = (Inr (), st\<lparr>config := Some ?cfg, serverDir := sp\<rparr>)"
    if "serversDir st = serversDir s" and "disk st = ?F" for st
    unfolding selectServer_def that sp desc Let_def existsSync_def readFileSync_def inF
    by simp
  let ?b = "(sp, ?now, Dir)"
  let ?c = "(jar, ?now, File content)"
  let ?d = "(eula, ?now, File (Text ''eula=true''))"
  let ?e = "(props, ?now, File (Text ?text))"
  let ?f = "(desc, ?now, File (JsonConfig ?cfg))"
  have flat: "mkdirSync ?now (disk s) sp = disk s @ [?b]"
      "readFileSync (disk s @ [?b]) (sourceJarPath params) = Some content"
      "copyFileSync ?now (disk s @ [?b]) (sourceJarPath params) jar = disk s @ [?b, ?c]"
      "writeFileSync ?now (disk s @ [?b, ?c]) eula (Text ''eula=true'') = disk s @ [?b, ?c, ?d]"
      "writeFileSync ?now (disk s @ [?b, ?c, ?d]) props (Text ?text) = disk s @ [?b, ?c, ?d, ?e]"
      "writeJsonAtomic e desc (JsonConfig ?cfg) (disk s @ [?b, ?c, ?d, ?e])
         = (Inr (), disk s @ [?b, ?c, ?d, ?e, ?f])"
    using m1 c2 c3 w3 w4 w5 by simp_all
  have chosen: "selectServer sid st = (Inr (), st\<lparr>config := Some ?cfg, serverDir := sp\<rparr>)"
    if "serversDir st = serversDir s" and "disk st = disk s @ [?b, ?c, ?d, ?e, ?f]" for st
    using sel [of st] that by simp
  have files: "create_files e params sid sp s
      = (Inr (),
         (logSystem e (''[System] Server '' @ [CHR 0x27] @ sc_name params @ [CHR 0x27]
                         @ '' created successfully (ID: '' @ sid @ '').'')
            (s\<lparr>disk := ?F\<rparr>))\<lparr>config := Some ?cfg, serverDir := sp\<rparr>)"
    unfolding create_files_def
    by (simp add: Let_def jar eula props desc flat chosen ok accepted)
  have res: "createServer e params s = (Inr sid, snd (create_files e params sid sp s))"
    unfolding createServer_def sid sp Let_def files
    using there fresh by (simp add: existsSync_def)
  show "fst (createServer e params s) = Inr sid"
    by (simp add: res)
  show "serversDir (snd (createServer e params s)) = serversDir s"
    by (simp add: res files)
  show "disk (snd (createServer e params s)) =
           disk s @
           [(sp, now_ms e, Dir),
            (jar, now_ms e, File content),
            (eula, now_ms e, File (Text ''eula=true'')),
            (props, now_ms e, File (Text (properties_text params (rand_hex e)))),
            (desc, now_ms e, File (JsonConfig ?cfg))]"
    by (simp add: res files)
qed

text \<open>The first instance, created on the fresh installation under the name ``My Test!''.\<close>

lemma first_creation:
  "fst (createServer ex_env (ex_params ''My Test!'') ex_fresh) = Inr ''my-test-''"
  "serversDir (snd (createServer ex_env (ex_params ''My Test!'') ex_fresh)) = ''/data/servers''"
  "disk (snd (createServer ex_env (ex_params ''My Test!'') ex_fresh)) =
     [(''/data/servers'', 2, Dir),
      (''/tmp/upload.jar'', 8, File (Text ''jar'')),
      (''/data/servers/my-test-'', 1000, Dir),
      (''/data/servers/my-test-/server.jar'', 1000, File (Text ''jar'')),
      (''/data/servers/my-test-/eula.txt'', 1000, File (Text ''eula=true'')),
      (''/data/servers/my-test-/server.properties'', 1000,
         File (Text (properties_text (ex_params ''My Test!'') ''00112233aabbccdd''))),
      (''/data/servers/my-test-/laplace.server.json'', 1000,
         File (JsonConfig
           \<lparr>cfg_id = ''my-test-'', cfg_name = ''My Test!'', jarFile = ''server.jar'',
            javaArgs = \<lparr>xmx = ''4G'', xms = ''1G'', args = []\<rparr>,
            rconPort = 25575, rconPassword = Some ''00112233aabbccdd'',
            autoRestart = True, created = 1000\<rparr>))]"
proof -
  have ok: "\<not> io_fails ex_env p" for p
    by (simp add: ex_eval)
  have dir: "serversDir ex_fresh = ''/data/servers''"
    and d: "disk ex_fresh = [(''/data/servers'', 2, Dir), (''/tmp/upload.jar'', 8, File (Text ''jar''))]"
    by (simp_all add: ex_eval)
  have par: "sc_name (ex_params ''My Test!'') = ''My Test!''"
      "sourceJarPath (ex_params ''My Test!'') = ''/tmp/upload.jar''"
      "eulaAccepted (ex_params ''My Test!'')"
      "sc_xmx (ex_params ''My Test!'') = ''4G''" "sc_xms (ex_params ''My Test!'') = ''1G''"
    by (simp_all add: ex_eval)
  have env: "now_ms ex_env = 1000" "rand_hex ex_env = ''00112233aabbccdd''"
    by (simp_all add: ex_eval)
  have sid: "serverId_of (sc_name (ex_params ''My Test!'')) = ''my-test-''"
    by (simp add: par my_test_id)
  have sp: "path_join (serversDir ex_fresh) ''my-test-'' = ''/data/servers/my-test-''"
    by (simp add: dir path_eval)
  have inner: "path_join ''/data/servers/my-test-'' ''server.jar'' = ''/data/servers/my-test-/server.jar''"
      "path_join ''/data/servers/my-test-'' ''eula.txt'' = ''/data/servers/my-test-/eula.txt''"
      "path_join ''/data/servers/my-test-'' ''server.properties'' = ''/data/servers/my-test-/server.properties''"
      "path_join ''/data/servers/my-test-'' ''laplace.server.json'' = ''/data/servers/my-test-/laplace.server.json''"
    by (simp_all add: path_eval)
  have src: "readFileSync (disk ex_fresh) (sourceJarPath (ex_params ''My Test!'')) = Some (Text ''jar'')"
    by (simp add: par d readFileSync_def)
  have fresh: "map_of (disk ex_fresh) ''/data/servers/my-test-'' = None"
      "map_of (disk ex_fresh) ''/data/servers/my-test-/server.jar'' = None"
      "map_of (disk ex_fresh) ''/data/servers/my-test-/eula.txt'' = None"
      "map_of (disk ex_fresh) ''/data/servers/my-test-/server.properties'' = None"
      "map_of (disk ex_fresh) ''/data/servers/my-test-/laplace.server.json'' = None"
      "map_of (disk ex_fresh) (''/data/servers/my-test-/laplace.server.json'' @ ''.tmp'') = None"
    by (simp_all add: d)
  have apart: "distinct [''/data/servers/my-test-'', ''/data/servers/my-test-/server.jar'',
      ''/data/servers/my-test-/eula.txt'', ''/data/servers/my-test-/server.properties'',
      ''/data/servers/my-test-/laplace.server.json'',
      ''/data/servers/my-test-/laplace.server.json'' @ ''.tmp'']"
    by simp
  note made = createServer_succeeds [OF ok sid sp inner src fresh apart par(3)]
  show "fst (createServer ex_env (ex_params ''My Test!'') ex_fresh) = Inr ''my-test-''"
    by (rule made(1))
  show "serversDir (snd (createServer ex_env (ex_params ''My Test!'') ex_fresh)) = ''/data/servers''"
    using made(2) dir by simp
  show "disk (snd (createServer ex_env (ex_params ''My Test!'') ex_fresh)) =
     [(''/data/servers'', 2, Dir),
      (''/tmp/upload.jar'', 8, File (Text ''jar'')),
      (''/data/servers/my-test-'', 1000, Dir),
      (''/data/servers/my-test-/server.jar'', 1000, File (Text ''jar'')),
      (''/data/servers/my-test-/eula.txt'', 1000, File (Text ''eula=true'')),
      (''/data/servers/my-test-/server.properties'', 1000,
         File (Text (properties_text (ex_params ''My Test!'') ''00112233aabbccdd''))),
      (''/data/servers/my-test-/laplace.server.json'', 1000,
         File (JsonConfig
           \<lparr>cfg_id = ''my-test-'', cfg_name = ''My Test!'', jarFile = ''server.jar'',
            javaArgs = \<lparr>xmx = ''4G'', xms = ''1G'', args = []\<rparr>,
            rconPort = 25575, rconPassword = Some ''00112233aabbccdd'',
            autoRestart = True, created = 1000\<rparr>))]"
    using made(3) by (simp add: d env par)
qed

lemma selectServer_ok:
  assumes "selectServer i s = (Inr u, s1)"
  shows "existsSync (disk s1) (path_join (serversDir s1) i)" and "serversDir s1 = serversDir s"
  using assms
  by (auto simp add: selectServer_def Let_def split: if_splits option.splits fdata.splits)

lemma selectServer_errors: "fst (selectServer i s) \<noteq> Inl (ServerIdExists j)"
  by (auto simp add: selectServer_def Let_def split: if_splits option.splits fdata.splits)

lemma create_files_cases:
  "(\<exists>p. fst (create_files e params sid sp s) = Inl (IoError p))
   \<or> (\<exists>st. serversDir st = serversDir s \<and> create_files e params sid sp s = selectServer sid st)"
proof -
  define d1 where "d1 = mkdirSync (now_ms e) (disk s) sp"
  define d2 where "d2 = copyFileSync (now_ms e) d1 (sourceJarPath params) (path_join sp ''server.jar'')"
  define d3 where "d3 = (if eulaAccepted params
                         then writeFileSync (now_ms e) d2 (path_join sp ''eula.txt'') (Text ''eula=true'')
                         else d2)"
  define d4 where "d4 = writeFileSync (now_ms e) d3 (path_join sp ''server.properties'')
                          (Text (properties_text params (rand_hex e)))"
  define cfg where "cfg = \<lparr>cfg_id = sid, cfg_name = sc_name params,
                                  jarFile = ''server.jar'',
                                  javaArgs = \<lparr>xmx = (if sc_xmx params = [] then ''4G'' else sc_xmx params),
                                               xms = (if sc_xms params = [] then ''1G'' else sc_xms params),
                                               args = []\<rparr>,
                                  rconPort = 25575, rconPassword = Some (rand_hex e),
                                  autoRestart = True, created = now_ms e\<rparr>"
  define msg where "msg = ''[System] Server '' @ [CHR 0x27] @ sc_name params
                                                 @ [CHR 0x27] @ '' created successfully (ID: ''
                                                 @ sid @ '').''"
  have form: "create_files e params sid sp s =
     (if io_fails e sp then (Inl (IoError sp), s)
      else if io_fails e (path_join sp ''server.jar'') \<or> readFileSync d1 (sourceJarPath params) = None
           then (Inl (IoError (path_join sp ''server.jar'')), s\<lparr>disk := d1\<rparr>)
      else if eulaAccepted params \<and> io_fails e (path_join sp ''eula.txt'')
           then (Inl (IoError (path_join sp ''eula.txt'')), s\<lparr>disk := d2\<rparr>)
      else if io_fails e (path_join sp ''server.properties'')
           then (Inl (IoError (path_join sp ''server.properties'')), s\<lparr>disk := d3\<rparr>)
      else (case writeJsonAtomic e (path_join sp ''laplace.server.json'') (JsonConfig cfg) d4 of
              (Inl err, d5) \<Rightarrow> (Inl err, s\<lparr>disk := d5\<rparr>)
            | (Inr u, d5) \<Rightarrow> selectServer sid (logSystem e msg (s\<lparr>disk := d5\<rparr>))))"
    unfolding create_files_def d1_def d2_def d3_def d4_def cfg_def msg_def Let_def ..
  obtain r d5 where w: "writeJsonAtomic e (path_join sp ''laplace.server.json'') (JsonConfig cfg) d4 = (r, d5)"
    by (cases "writeJsonAtomic e (path_join sp ''laplace.server.json'') (JsonConfig cfg) d4")
  have r: "r = Inr () \<or> (\<exists>p. r = Inl (IoError p))"
    using writeJsonAtomic_result [of e "path_join sp ''laplace.server.json''" "JsonConfig cfg" d4] w
    by (auto split: if_splits)
  have st: "serversDir (logSystem e msg (s\<lparr>disk := d5\<rparr>)) = serversDir s"
    by simp
  show ?thesis
    unfolding form w using r st by (auto simp del: logSystem_frame)
qed


lemma createServer_cases:
  "createServer e params s =
     (if \<not> existsSync (disk s) (sourceJarPath params)
      then (Inl (CoreFileNotFound (sourceJarPath params)), s)
      else if existsSync (disk s) (path_join (serversDir s) (serverId_of (sc_name params)))
      then (Inl (ServerIdExists (serverId_of (sc_name params))), s)
      else (case create_files e params (serverId_of (sc_name params))
                   (path_join (serversDir s) (serverId_of (sc_name params))) s of
              (Inr u, s1) \<Rightarrow> (Inr (serverId_of (sc_name params)), s1)
            | (Inl err, s1) \<Rightarrow>
                (Inl err,
                 logError e (''[Creation Failed] '' @ error_message err)
                   (if existsSync (disk s1) (path_join (serversDir s) (serverId_of (sc_name params)))
                       \<and> length (readdirSync (disk s1)
                                   (path_join (serversDir s) (serverId_of (sc_name params)))) < 3
                    then s1\<lparr>disk := rmSync (disk s1)
                                       (path_join (serversDir s) (serverId_of (sc_name params)))\<rparr>
                    else s1))))"
  unfolding createServer_def Let_def ..

lemma createServer_ok:
  assumes "fst (createServer e params s) = Inr sid"
  shows "sid = serverId_of (sc_name params)"
    and "existsSync (disk (snd (createServer e params s))) (path_join (serversDir s) sid)"
    and "serversDir (snd (createServer e params s)) = serversDir s"
proof -
  let ?sid = "serverId_of (sc_name params)"
  let ?sp = "path_join (serversDir s) ?sid"
  obtain r s1 where cf: "create_files e params ?sid ?sp s = (r, s1)"
    by (cases "create_files e params ?sid ?sp s")
  have guards: "existsSync (disk s) (sourceJarPath params)" "\<not> existsSync (disk s) ?sp"
    using assms unfolding createServer_cases by (auto split: if_splits)
  have r: "r = Inr ()" and sid: "sid = ?sid" and res: "snd (createServer e params s) = s1"
    using assms guards unfolding createServer_cases cf by (auto split: sum.splits)
  obtain st where st: "serversDir st = serversDir s" "selectServer ?sid st = (Inr (), s1)"
    using create_files_cases [of e params ?sid ?sp s] cf r by auto
  note sel = selectServer_ok [OF st(2)]
  show "sid = serverId_of (sc_name params)"
    by (rule sid)
  show "existsSync (disk (snd (createServer e params s))) (path_join (serversDir s) sid)"
    using sel st(1) by (simp add: res sid)
  show "serversDir (snd (createServer e params s)) = serversDir s"
    using sel(2) st(1) by (simp add: res)
qed

lemma createServer_duplicate_only:
  assumes "fst (createServer e params s) = Inl (ServerIdExists i)"
  shows "i = serverId_of (sc_name params)"
    and "existsSync (disk s) (path_join (serversDir s) i)"
proof -
  let ?sid = "serverId_of (sc_name params)"
  let ?sp = "path_join (serversDir s) ?sid"
  obtain r s1 where cf: "create_files e params ?sid ?sp s = (r, s1)"
    by (cases "create_files e params ?sid ?sp s")
  have r: "r \<noteq> Inl (ServerIdExists i)"
    using create_files_cases [of e params ?sid ?sp s] selectServer_errors [of ?sid _ i] cf
    by (metis error.distinct fst_conv sum.inject(1))
  have "i = ?sid \<and> existsSync (disk s) ?sp"
    using assms r unfolding createServer_cases cf by (auto split: if_splits sum.splits)
  then show "i = serverId_of (sc_name params)" and "existsSync (disk s) (path_join (serversDir s) i)"
    by simp_all
qed

text \<open>
  C4, as the code has it. The identifier is the display name in lower case with every
  character (UTF-16 unit) outside \<open>[a-z0-9]\<close> replaced by \<open>-\<close>: \<open>my-test-\<close> for
  ``My Test!'', and whenever \<open>createServer\<close> returns an identifier it is that one, and
  the directory of that name is there. A call is rejected as a duplicate, the supervisor
  unchanged, when the directory of its identifier exists already (the source jar being
  there), and is rejected as a duplicate in that case only. So a second call whose name
  has the identifier of the instance just created is rejected; no call is rejected as a
  duplicate on account of an instance with another identifier.
\<close>

theorem createServer_identifier:
  "serverId_of ''My Test!'' = ''my-test-''
   \<and> (\<forall>sid. fst (createServer e params s) = Inr sid
          \<longrightarrow> sid = serverId_of (sc_name params)
              \<and> existsSync (disk (snd (createServer e params s))) (path_join (serversDir s) sid))
   \<and> (existsSync (disk s) (sourceJarPath params)
        \<and> existsSync (disk s) (path_join (serversDir s) (serverId_of (sc_name params)))
       \<longrightarrow> createServer e params s = (Inl (ServerIdExists (serverId_of (sc_name params))), s))
   \<and> (\<forall>i. fst (createServer e params s) = Inl (ServerIdExists i)
          \<longrightarrow> i = serverId_of (sc_name params)
              \<and> existsSync (disk s) (path_join (serversDir s) i))
   \<and> (\<forall>sid. fst (createServer e params s) = Inr sid
            \<and> serverId_of (sc_name again) = sid
            \<and> existsSync (disk (snd (createServer e params s))) (sourceJarPath again)
          \<longrightarrow> createServer e2 again (snd (createServer e params s))
                = (Inl (ServerIdExists sid), snd (createServer e params s)))"
proof (intro conjI allI impI)
  show "serverId_of ''My Test!'' = ''my-test-''"
    by (rule my_test_id)
next
  fix sid
  assume ok: "fst (createServer e params s) = Inr sid"
  show "sid = serverId_of (sc_name params)"
    by (rule createServer_ok(1) [OF ok])
  show "existsSync (disk (snd (createServer e params s))) (path_join (serversDir s) sid)"
    by (rule createServer_ok(2) [OF ok])
next
  assume "existsSync (disk s) (sourceJarPath params)
          \<and> existsSync (disk s) (path_join (serversDir s) (serverId_of (sc_name params)))"
  then show "createServer e params s = (Inl (ServerIdExists (serverId_of (sc_name params))), s)"
    by (intro createServer_same_id) simp_all
next
  fix i
  assume dup: "fst (createServer e params s) = Inl (ServerIdExists i)"
  show "i = serverId_of (sc_name params)"
    by (rule createServer_duplicate_only(1) [OF dup])
  show "existsSync (disk s) (path_join (serversDir s) i)"
    by (rule createServer_duplicate_only(2) [OF dup])
next
  fix sid
  assume a: "fst (createServer e params s) = Inr sid \<and> serverId_of (sc_name again) = sid
             \<and> existsSync (disk (snd (createServer e params s))) (sourceJarPath again)"
  let ?s1 = "snd (createServer e params s)"
  from a have ok: "fst (createServer e params s) = Inr sid" by simp
  have there: "existsSync (disk ?s1) (path_join (serversDir ?s1) (serverId_of (sc_name again)))"
    using createServer_ok(2,3) [OF ok] a by simp
  have "createServer e2 again ?s1 = (Inl (ServerIdExists (serverId_of (sc_name again))), ?s1)"
    using a there by (intro createServer_same_id) simp_all
  then show "createServer e2 again ?s1 = (Inl (ServerIdExists sid), ?s1)"
    using a by simp
qed

theorem createServer_identifier_witness:
  "fst (createServer ex_env (ex_params ''My Test!'') ex_fresh) = Inr ''my-test-''
   \<and> serverId_of (sc_name (ex_params ''My Test!'')) = ''my-test-''
   \<and> existsSync (disk (snd (createServer ex_env (ex_params ''My Test!'') ex_fresh))) ''/data/servers/my-test-''
   \<and> createServer ex_env (ex_params ''my test?'') (snd (createServer ex_env (ex_params ''My Test!'') ex_fresh))
       = (Inl (ServerIdExists ''my-test-''), snd (createServer ex_env (ex_params ''My Test!'') ex_fresh))
   \<and> createServer ex_env (ex_params ''Alpha'') ex_offline = (Inl (ServerIdExists ''alpha''), ex_offline)"
proof -
  let ?one = "snd (createServer ex_env (ex_params ''My Test!'') ex_fresh)"
  note first = createServer_identifier [of ex_env "ex_params ''My Test!''" ex_fresh "ex_params ''my test?''" ex_env]
  have sp1: "path_join (serversDir ex_fresh) ''my-test-'' = ''/data/servers/my-test-''"
    by (simp add: ex_eval path_eval)
  note got = first [THEN conjunct2, THEN conjunct1, rule_format, OF first_creation(1)]
  have made: "serverId_of (sc_name (ex_params ''My Test!'')) = ''my-test-''
              \<and> existsSync (disk ?one) ''/data/servers/my-test-''"
    by (rule conjI [OF got [THEN conjunct1, symmetric] got [THEN conjunct2, unfolded sp1]])
  have again: "serverId_of (sc_name (ex_params ''my test?'')) = ''my-test-''"
    by (simp add: ex_eval serverId_of.simps continuation_byte_def toLowerCase_def startsWith_def)
  have src: "sourceJarPath (ex_params ''my test?'') = ''/tmp/upload.jar''"
    by (simp add: ex_params_def)
  have jar: "existsSync (disk ?one) (sourceJarPath (ex_params ''my test?''))"
    unfolding src by (simp add: first_creation(3) existsSync_def)
  have twice: "createServer ex_env (ex_params ''my test?'') ?one = (Inl (ServerIdExists ''my-test-''), ?one)"
    by (rule first [THEN conjunct2, THEN conjunct2, THEN conjunct2, THEN conjunct2, rule_format])
       (simp add: first_creation(1) again jar)
  have sid: "serverId_of (sc_name (ex_params ''Alpha'')) = ''alpha''"
    by (simp add: ex_eval serverId_of.simps continuation_byte_def toLowerCase_def startsWith_def)
  have dir: "serversDir ex_offline = ''/data/servers''"
    by (simp add: ex_eval)
  have sp: "path_join ''/data/servers'' ''alpha'' = ''/data/servers/alpha''"
    by (simp add: path_eval)
  have taken: "existsSync (disk ex_offline) (sourceJarPath (ex_params ''Alpha''))
               \<and> existsSync (disk ex_offline) ''/data/servers/alpha''"
    by (simp add: ex_eval existsSync_def)
  have "existsSync (disk ex_offline) (sourceJarPath (ex_params ''Alpha''))
        \<and> existsSync (disk ex_offline)
            (path_join (serversDir ex_offline) (serverId_of (sc_name (ex_params ''Alpha''))))"
    using taken by (simp only: sid dir sp)
  then have "createServer ex_env (ex_params ''Alpha'') ex_offline
               = (Inl (ServerIdExists (serverId_of (sc_name (ex_params ''Alpha'')))), ex_offline)"
    using createServer_identifier [of ex_env "ex_params ''Alpha''" ex_offline] by blast
  then have refused: "createServer ex_env (ex_params ''Alpha'') ex_offline
                        = (Inl (ServerIdExists ''alpha''), ex_offline)"
    by (simp only: sid)
  show ?thesis
    using made twice refused first_creation(1) by blast
qed

text \<open>
  The claim as written fails: after ``My Test!'' has been created on the fresh
  installation, a second \<open>createServer\<close>, under the name ``Second'', is accepted.
\<close>

theorem createServer_second_instance_accepted:
  "fst (createServer ex_env (ex_params ''My Test!'') ex_fresh) = Inr ''my-test-''
   \<and> existsSync (disk (snd (createServer ex_env (ex_params ''My Test!'') ex_fresh)))
         ''/data/servers/my-test-/laplace.server.json''
   \<and> fst (createServer ex_env (ex_params ''Second'')
             (snd (createServer ex_env (ex_params ''My Test!'') ex_fresh))) = Inr ''second''"
proof -
  let ?one = "snd (createServer ex_env (ex_params ''My Test!'') ex_fresh)"
  note d = first_creation(3)
  have ok: "\<not> io_fails ex_env p" for p
    by (simp add: ex_eval)
  have par: "sc_name (ex_params ''Second'') = ''Second''"
      "sourceJarPath (ex_params ''Second'') = ''/tmp/upload.jar''"
      "eulaAccepted (ex_params ''Second'')"
    by (simp_all add: ex_eval)
  have sid: "serverId_of (sc_name (ex_params ''Second'')) = ''second''"
    by (simp add: par serverId_of.simps continuation_byte_def toLowerCase_def startsWith_def)
  have sp: "path_join (serversDir ?one) ''second'' = ''/data/servers/second''"
    by (simp add: first_creation(2) path_eval)
  have inner: "path_join ''/data/servers/second'' ''server.jar'' = ''/data/servers/second/server.jar''"
      "path_join ''/data/servers/second'' ''eula.txt'' = ''/data/servers/second/eula.txt''"
      "path_join ''/data/servers/second'' ''server.properties'' = ''/data/servers/second/server.properties''"
      "path_join ''/data/servers/second'' ''laplace.server.json'' = ''/data/servers/second/laplace.server.json''"
    by (simp_all add: path_eval)
  have src: "readFileSync (disk ?one) (sourceJarPath (ex_params ''Second'')) = Some (Text ''jar'')"
    by (simp add: par d readFileSync_def)
  have fresh: "map_of (disk ?one) ''/data/servers/second'' = None"
      "map_of (disk ?one) ''/data/servers/second/server.jar'' = None"
      "map_of (disk ?one) ''/data/servers/second/eula.txt'' = None"
      "map_of (disk ?one) ''/data/servers/second/server.properties'' = None"
      "map_of (disk ?one) ''/data/servers/second/laplace.server.json'' = None"
      "map_of (disk ?one) (''/data/servers/second/laplace.server.json'' @ ''.tmp'') = None"
    by (simp_all add: d)
  have apart: "distinct [''/data/servers/second'', ''/data/servers/second/server.jar'',
      ''/data/servers/second/eula.txt'', ''/data/servers/second/server.properties'',
      ''/data/servers/second/laplace.server.json'',
      ''/data/servers/second/laplace.server.json'' @ ''.tmp'']"
    by simp
  have second: "fst (createServer ex_env (ex_params ''Second'') ?one) = Inr ''second''"
    by (rule createServer_succeeds(1) [OF ok sid sp inner src fresh apart par(3)])
  have there: "existsSync (disk ?one) ''/data/servers/my-test-/laplace.server.json''"
    by (simp add: d existsSync_def)
  show ?thesis
    using first_creation(1) there second by simp
qed

text \<open>
  The refusal of a second instance is the terminal command's: \<open>server create\<close> opens the
  wizard only when \<open>listServers\<close> is empty.
\<close>

lemma server_create_command_blocked:
  "listServers s \<noteq> [] \<Longrightarrow> server_create_command s = Blocked"
  by (simp add: server_create_command_def)

end
